theory Spec2Isabelle
  imports Main "HOL-Library.Word"
begin

section \<open>The cryptographic engine of pkg/crypto/crypto.go\<close>

text \<open>
  The engine composes primitives of external libraries (crypto/aes, crypto/cipher,
  crypto/rand, chacha20poly1305 and circl's kem.Scheme) into three wire formats.
  The primitives are not code of the repository: they enter the model as parameters
  (records of functions), and what a theorem needs of them is a hypothesis stated as a
  contract predicate. Log output and the three wall-clock durations of a TestResult
  have no influence on any value modelled here and are left out.
\<close>

subsection \<open>Data\<close>

type_synonym byte = "8 word"
type_synonym bytes = "byte list"

text \<open>The struct \<^verbatim>\<open>Algorithm\<close> (crypto.go, lines 21-25).\<close>

record Algorithm =
  Name :: string
  Description :: string
  PostQuantum :: bool

text \<open>
  The struct \<^verbatim>\<open>TestResult\<close> (lines 28-35) without its three
  \<^verbatim>\<open>time.Duration\<close> fields. The field \<^verbatim>\<open>Algorithm\<close> is called
  \<open>AlgorithmName\<close> here, since the record above owns that name.
\<close>

record TestResult =
  AlgorithmName :: string
  Encrypted :: bytes
  DecryptionSuccessful :: bool

text \<open>
  Every error value the package can return. The first six are built by the package
  itself (\<^verbatim>\<open>fmt.Errorf\<close>, \<^verbatim>\<open>errors.New\<close>); \<open>LibraryError\<close> wraps an
  error handed back by a library call; \<open>SliceBoundsPanic\<close> is the run-time panic of
  a slice expression \<^verbatim>\<open>s[:32]\<close> on a slice shorter than 32 bytes.
\<close>

datatype error =
    UnsupportedAlgorithm string
  | InvalidAlgorithm string
  | CiphertextTooShort
  | RemainingCiphertextTooShort
  | RemainingTooShortForAESKey
  | RemainingTooShortForDataNonce
  | LibraryError string
  | SliceBoundsPanic

subsection \<open>Library interfaces\<close>

text \<open>
  \<^verbatim>\<open>cipher.AEAD\<close>. The package always passes nil additional data, and nil as
  \<^verbatim>\<open>dst\<close> of \<^verbatim>\<open>Open\<close>; \<open>Seal a nonce plaintext\<close> is what
  \<^verbatim>\<open>Seal\<close> appends to its \<^verbatim>\<open>dst\<close>. \<open>Open\<close> returns \<open>None\<close> where the
  library returns an error. Both are total here: the package calls them with nonces of
  \<open>NonceSize\<close> bytes only, and the panic of the actual ciphers on a plaintext beyond
  their size limit (64 GiB for GCM) is outside the model.
\<close>

record AEAD =
  NonceSize :: nat
  Overhead :: nat
  Seal :: "bytes \<Rightarrow> bytes \<Rightarrow> bytes"
  Open :: "bytes \<Rightarrow> bytes \<Rightarrow> bytes option"

text \<open>
  \<^verbatim>\<open>kem.Scheme\<close>. Key generation and encapsulation draw from the process-wide
  random source, so they take the source and return what is left of it.
\<close>

record ('pk, 'sk) Scheme =
  GenerateKeyPair :: "bytes \<Rightarrow> string + ('pk \<times> 'sk) \<times> bytes"
  Encapsulate :: "'pk \<Rightarrow> bytes \<Rightarrow> string + (bytes \<times> bytes) \<times> bytes"
  Decapsulate :: "'sk \<Rightarrow> bytes \<Rightarrow> string + bytes"
  CiphertextSize :: nat

record ('blk, 'pk, 'sk) Library =
  aes_NewCipher :: "bytes \<Rightarrow> string + 'blk"
  cipher_NewGCM :: "'blk \<Rightarrow> string + AEAD"
  chacha20poly1305_New :: "bytes \<Rightarrow> string + AEAD"
  kyber768_Scheme :: "('pk, 'sk) Scheme"
  kyber1024_Scheme :: "('pk, 'sk) Scheme"

text \<open>
  \<^verbatim>\<open>io.ReadFull(rand.Reader, buf)\<close> with \<^verbatim>\<open>len(buf) = n\<close>. The random
  source is the list of bytes it has yet to deliver; a source that runs dry is the
  read error the code checks for.
\<close>

definition ReadFull :: "bytes \<Rightarrow> nat \<Rightarrow> error + bytes \<times> bytes" where
  "ReadFull rng n =
     (if length rng < n then Inl (LibraryError ''unexpected EOF'')
      else Inr (take n rng, drop n rng))"

text \<open>
  \<^verbatim>\<open>aes.NewCipher(key)\<close> followed by \<^verbatim>\<open>cipher.NewGCM(block)\<close>, each with
  its \<^verbatim>\<open>if err != nil { return nil, err }\<close> (lines 172-180, 281-289, 320-328,
  377-385, 397-405, 436-444, 474-482).
\<close>

definition newAESGCM :: "('blk, 'pk, 'sk) Library \<Rightarrow> bytes \<Rightarrow> error + AEAD" where
  "newAESGCM lib key =
     (case aes_NewCipher lib key of
        Inl err \<Rightarrow> Inl (LibraryError err)
      | Inr block \<Rightarrow>
          (case cipher_NewGCM lib block of
             Inl err \<Rightarrow> Inl (LibraryError err)
           | Inr aead \<Rightarrow> Inr aead))"

text \<open>\<^verbatim>\<open>chacha20poly1305.New(key)\<close> with its error check (lines 225-228).\<close>

definition newChaCha :: "('blk, 'pk, 'sk) Library \<Rightarrow> bytes \<Rightarrow> error + AEAD" where
  "newChaCha lib key =
     (case chacha20poly1305_New lib key of
        Inl err \<Rightarrow> Inl (LibraryError err)
      | Inr aead \<Rightarrow> Inr aead)"

subsection \<open>Algorithm registry\<close>

definition ListClassicAlgorithms :: "Algorithm list" where
  "ListClassicAlgorithms =
     [\<lparr>Name = ''aes256gcm'',
       Description = ''AES-256 in GCM mode - Strong symmetric encryption'',
       PostQuantum = False\<rparr>,
      \<lparr>Name = ''chacha20poly1305'',
       Description = ''ChaCha20-Poly1305 - Fast and secure symmetric encryption'',
       PostQuantum = False\<rparr>]"

definition ListPostQuantumAlgorithms :: "Algorithm list" where
  "ListPostQuantumAlgorithms =
     [\<lparr>Name = ''kyber768'',
       Description = ''Kyber-768 - NIST selected post-quantum key encapsulation mechanism'',
       PostQuantum = True\<rparr>,
      \<lparr>Name = ''kyber1024'',
       Description = ''Kyber-1024 - Higher security level post-quantum key encapsulation mechanism'',
       PostQuantum = True\<rparr>,
      \<lparr>Name = ''hybrid-kyber768-aes256gcm'',
       Description = ''Hybrid Kyber-768 + AES-256-GCM - Post-quantum security with classical fallback'',
       PostQuantum = True\<rparr>]"

text \<open>The names of both lists: the five registered algorithm names.\<close>

definition registeredNames :: "string list" where
  "registeredNames = map Name (ListClassicAlgorithms @ ListPostQuantumAlgorithms)"

subsection \<open>Classic AEAD executors\<close>

text \<open>
  The decryption self-test of \<^verbatim>\<open>testAES256GCM\<close> (lines 194-211) and of
  \<^verbatim>\<open>testChaCha20Poly1305\<close> (lines 242-259), which are the same text.
\<close>

definition decryptAEAD :: "AEAD \<Rightarrow> bytes \<Rightarrow> bytes \<Rightarrow> TestResult \<Rightarrow> error + TestResult" where
  "decryptAEAD aead ciphertext data result =
     (let nonceSize = NonceSize aead in
      if length ciphertext < nonceSize then Inl CiphertextTooShort
      else
        let nonceDecrypt = take nonceSize ciphertext;
            ciphertextDecrypt = drop nonceSize ciphertext
        in case Open aead nonceDecrypt ciphertextDecrypt of
             None \<Rightarrow> Inr (result\<lparr>DecryptionSuccessful := False\<rparr>)
           | Some plaintext \<Rightarrow> Inr (result\<lparr>DecryptionSuccessful := (plaintext = data)\<rparr>))"

definition testAES256GCM ::
  "('blk, 'pk, 'sk) Library \<Rightarrow> bytes \<Rightarrow> TestResult \<Rightarrow> bytes \<Rightarrow> error + TestResult" where
  "testAES256GCM lib data result rng =
     (case ReadFull rng 32 of
        Inl err \<Rightarrow> Inl err
      | Inr (key, rng1) \<Rightarrow>
     (case newAESGCM lib key of
        Inl err \<Rightarrow> Inl err
      | Inr aead \<Rightarrow>
     (case ReadFull rng1 (NonceSize aead) of
        Inl err \<Rightarrow> Inl err
      | Inr (nonce, rng2) \<Rightarrow>
          let ciphertext = nonce @ Seal aead nonce data;
              result = result\<lparr>Encrypted := ciphertext\<rparr>
          in decryptAEAD aead ciphertext data result)))"

text \<open>\<^verbatim>\<open>chacha20poly1305.KeySize\<close> is 32.\<close>

definition testChaCha20Poly1305 ::
  "('blk, 'pk, 'sk) Library \<Rightarrow> bytes \<Rightarrow> TestResult \<Rightarrow> bytes \<Rightarrow> error + TestResult" where
  "testChaCha20Poly1305 lib data result rng =
     (case ReadFull rng 32 of
        Inl err \<Rightarrow> Inl err
      | Inr (key, rng1) \<Rightarrow>
     (case newChaCha lib key of
        Inl err \<Rightarrow> Inl err
      | Inr aead \<Rightarrow>
     (case ReadFull rng1 (NonceSize aead) of
        Inl err \<Rightarrow> Inl err
      | Inr (nonce, rng2) \<Rightarrow>
          let ciphertext = nonce @ Seal aead nonce data;
              result = result\<lparr>Encrypted := ciphertext\<rparr>
          in decryptAEAD aead ciphertext data result)))"

subsection \<open>KEM executor\<close>

text \<open>The decapsulation and decryption half of \<^verbatim>\<open>testKyber\<close> (lines 301-345).\<close>

definition decryptKyber ::
  "('blk, 'pk, 'sk) Library \<Rightarrow> ('pk, 'sk) Scheme \<Rightarrow> 'sk \<Rightarrow> bytes \<Rightarrow> bytes \<Rightarrow> TestResult
     \<Rightarrow> error + TestResult" where
  "decryptKyber lib scheme private encrypted data result =
     (let kyberCiphertextSize = CiphertextSize scheme in
      if length encrypted < kyberCiphertextSize then Inl CiphertextTooShort
      else
        let kyberCiphertext = take kyberCiphertextSize encrypted;
            remaining = drop kyberCiphertextSize encrypted
        in case Decapsulate scheme private kyberCiphertext of
             Inl err \<Rightarrow> Inr (result\<lparr>DecryptionSuccessful := False\<rparr>)
           | Inr decapsulatedSecret \<Rightarrow>
          (case newAESGCM lib decapsulatedSecret of
             Inl err \<Rightarrow> Inl err
           | Inr aead \<Rightarrow>
               let nonceSize = NonceSize aead in
               if length remaining < nonceSize then Inl RemainingCiphertextTooShort
               else
                 let nonceDecrypt = take nonceSize remaining;
                     ciphertextDecrypt = drop nonceSize remaining
                 in (case Open aead nonceDecrypt ciphertextDecrypt of
                       None \<Rightarrow> Inr (result\<lparr>DecryptionSuccessful := False\<rparr>)
                     | Some plaintext \<Rightarrow>
                         Inr (result\<lparr>DecryptionSuccessful := (plaintext = data)\<rparr>))))"

definition testKyber ::
  "('blk, 'pk, 'sk) Library \<Rightarrow> ('pk, 'sk) Scheme \<Rightarrow> bytes \<Rightarrow> TestResult \<Rightarrow> bytes
     \<Rightarrow> error + TestResult" where
  "testKyber lib scheme data result rng =
     (case GenerateKeyPair scheme rng of
        Inl err \<Rightarrow> Inl (LibraryError err)
      | Inr ((public, private), rng1) \<Rightarrow>
     (case Encapsulate scheme public rng1 of
        Inl err \<Rightarrow> Inl (LibraryError err)
      | Inr ((ciphertext, sharedSecret), rng2) \<Rightarrow>
     (case newAESGCM lib sharedSecret of
        Inl err \<Rightarrow> Inl err
      | Inr aead \<Rightarrow>
     (case ReadFull rng2 (NonceSize aead) of
        Inl err \<Rightarrow> Inl err
      | Inr (nonce, rng3) \<Rightarrow>
          let encryptedData = Seal aead nonce data;
              result = result\<lparr>Encrypted := ciphertext @ (nonce @ encryptedData)\<rparr>
          in decryptKyber lib scheme private (Encrypted result) data result))))"

subsection \<open>Hybrid executor\<close>

text \<open>
  Lines 371-377 and 468-474: \<^verbatim>\<open>hybridKey\<close> is a fresh buffer of
  \<^verbatim>\<open>len(sharedSecret)+len(aesKey)\<close> bytes filled by two \<^verbatim>\<open>copy\<close> calls,
  and the AES key is \<^verbatim>\<open>hybridKey[:32]\<close>, a slice expression that panics when the
  buffer has fewer than 32 bytes.
\<close>

definition hybridKey32 :: "bytes \<Rightarrow> bytes \<Rightarrow> error + bytes" where
  "hybridKey32 sharedSecret aesKey =
     (let hybridKey = sharedSecret @ aesKey in
      if length hybridKey < 32 then Inl SliceBoundsPanic else Inr (take 32 hybridKey))"

text \<open>
  The local variables of \<^verbatim>\<open>testHybridKyberAES\<close> that are live at line 415, where
  the serialized ciphertext is assembled, each under the prefix \<open>hs_\<close>.
\<close>

record 'sk HybridSealed =
  hs_private :: 'sk
  hs_ciphertext :: bytes
  hs_sharedSecret :: bytes
  hs_aesKey :: bytes
  hs_aesKeyNonce :: bytes
  hs_encryptedAesKey :: bytes
  hs_nonce :: bytes
  hs_encryptedData :: bytes

text \<open>Key generation, encapsulation, payload encryption and key wrap (lines 350-412).\<close>

definition encryptHybrid ::
  "('blk, 'pk, 'sk) Library \<Rightarrow> ('pk, 'sk) Scheme \<Rightarrow> bytes \<Rightarrow> bytes \<Rightarrow> error + 'sk HybridSealed" where
  "encryptHybrid lib scheme data rng =
     (case GenerateKeyPair scheme rng of
        Inl err \<Rightarrow> Inl (LibraryError err)
      | Inr ((public, private), rng1) \<Rightarrow>
     (case ReadFull rng1 32 of
        Inl err \<Rightarrow> Inl err
      | Inr (aesKey, rng2) \<Rightarrow>
     (case Encapsulate scheme public rng2 of
        Inl err \<Rightarrow> Inl (LibraryError err)
      | Inr ((ciphertext, sharedSecret), rng3) \<Rightarrow>
     (case hybridKey32 sharedSecret aesKey of
        Inl err \<Rightarrow> Inl err
      | Inr key \<Rightarrow>
     (case newAESGCM lib key of
        Inl err \<Rightarrow> Inl err
      | Inr aead \<Rightarrow>
     (case ReadFull rng3 (NonceSize aead) of
        Inl err \<Rightarrow> Inl err
      | Inr (nonce, rng4) \<Rightarrow>
     (let encryptedData = Seal aead nonce data in
      case newAESGCM lib sharedSecret of
        Inl err \<Rightarrow> Inl err
      | Inr aesKeyAead \<Rightarrow>
     (case ReadFull rng4 (NonceSize aesKeyAead) of
        Inl err \<Rightarrow> Inl err
      | Inr (aesKeyNonce, rng5) \<Rightarrow>
          let encryptedAesKey = Seal aesKeyAead aesKeyNonce aesKey
          in Inr \<lparr>hs_private = private, hs_ciphertext = ciphertext,
                  hs_sharedSecret = sharedSecret, hs_aesKey = aesKey,
                  hs_aesKeyNonce = aesKeyNonce, hs_encryptedAesKey = encryptedAesKey,
                  hs_nonce = nonce, hs_encryptedData = encryptedData\<rparr>))))))))"

text \<open>Decapsulation, key unwrap and payload decryption (lines 417-499).\<close>

definition decryptHybrid ::
  "('blk, 'pk, 'sk) Library \<Rightarrow> ('pk, 'sk) Scheme \<Rightarrow> 'sk \<Rightarrow> bytes \<Rightarrow> bytes \<Rightarrow> TestResult
     \<Rightarrow> error + TestResult" where
  "decryptHybrid lib scheme private encrypted data result =
     (let kyberCiphertextSize = CiphertextSize scheme in
      if length encrypted < kyberCiphertextSize then Inl CiphertextTooShort
      else
        let kyberCiphertext = take kyberCiphertextSize encrypted;
            remaining = drop kyberCiphertextSize encrypted
        in (case Decapsulate scheme private kyberCiphertext of
              Inl err \<Rightarrow> Inr (result\<lparr>DecryptionSuccessful := False\<rparr>)
            | Inr decapsulatedSecret \<Rightarrow>
           (case newAESGCM lib decapsulatedSecret of
              Inl err \<Rightarrow> Inl err
            | Inr aesKeyAead \<Rightarrow>
                let aesKeyNonceSize = NonceSize aesKeyAead in
                if length remaining < aesKeyNonceSize then Inl RemainingCiphertextTooShort
                else
                  let aesKeyNonceDecrypt = take aesKeyNonceSize remaining;
                      remaining = drop aesKeyNonceSize remaining;
                      encryptedAesKeySize = 32 + 16
                  in
                  if length remaining < encryptedAesKeySize then Inl RemainingTooShortForAESKey
                  else
                    let encryptedAesKeyDecrypt = take encryptedAesKeySize remaining;
                        remaining = drop encryptedAesKeySize remaining
                    in (case Open aesKeyAead aesKeyNonceDecrypt encryptedAesKeyDecrypt of
                          None \<Rightarrow> Inr (result\<lparr>DecryptionSuccessful := False\<rparr>)
                        | Some decryptedAesKey \<Rightarrow>
                       (case hybridKey32 decapsulatedSecret decryptedAesKey of
                          Inl err \<Rightarrow> Inl err
                        | Inr key \<Rightarrow>
                       (case newAESGCM lib key of
                          Inl err \<Rightarrow> Inl err
                        | Inr aeadDecrypt \<Rightarrow>
                            let nonceSize = NonceSize aeadDecrypt in
                            if length remaining < nonceSize
                            then Inl RemainingTooShortForDataNonce
                            else
                              let nonceDecrypt = take nonceSize remaining;
                                  ciphertextDecrypt = drop nonceSize remaining
                              in (case Open aeadDecrypt nonceDecrypt ciphertextDecrypt of
                                    None \<Rightarrow> Inr (result\<lparr>DecryptionSuccessful := False\<rparr>)
                                  | Some plaintext \<Rightarrow>
                                      Inr (result\<lparr>DecryptionSuccessful := (plaintext = data)\<rparr>))))))))"

definition testHybridKyberAES ::
  "('blk, 'pk, 'sk) Library \<Rightarrow> ('pk, 'sk) Scheme \<Rightarrow> bytes \<Rightarrow> TestResult \<Rightarrow> bytes
     \<Rightarrow> error + TestResult" where
  "testHybridKyberAES lib scheme data result rng =
     (case encryptHybrid lib scheme data rng of
        Inl err \<Rightarrow> Inl err
      | Inr h \<Rightarrow>
          let result = result\<lparr>Encrypted :=
                hs_ciphertext h @ (hs_aesKeyNonce h @ (hs_encryptedAesKey h @
                  (hs_nonce h @ hs_encryptedData h)))\<rparr>
          in decryptHybrid lib scheme (hs_private h) (Encrypted result) data result)"

subsection \<open>Dispatch\<close>

text \<open>\<^verbatim>\<open>TestAlgorithm\<close> (lines 77-104).\<close>

definition TestAlgorithm ::
  "('blk, 'pk, 'sk) Library \<Rightarrow> string \<Rightarrow> bytes \<Rightarrow> bytes \<Rightarrow> error + TestResult" where
  "TestAlgorithm lib algorithm data rng =
     (let result = \<lparr>AlgorithmName = algorithm, Encrypted = [], DecryptionSuccessful = False\<rparr> in
      if algorithm = ''aes256gcm'' then testAES256GCM lib data result rng
      else if algorithm = ''chacha20poly1305'' then testChaCha20Poly1305 lib data result rng
      else if algorithm = ''kyber768'' then testKyber lib (kyber768_Scheme lib) data result rng
      else if algorithm = ''kyber1024'' then testKyber lib (kyber1024_Scheme lib) data result rng
      else if algorithm = ''hybrid-kyber768-aes256gcm''
        then testHybridKyberAES lib (kyber768_Scheme lib) data result rng
      else Inl (UnsupportedAlgorithm algorithm))"

subsection \<open>Default-algorithm preference\<close>

text \<open>
  The settings store (viper) is a library as well: \<open>'v\<close> is its state, in memory and
  on disk, and \<open>viper_WriteConfig\<close> returns the error of the write, if any.
\<close>

record 'v Viper =
  viper_Set :: "string \<Rightarrow> string \<Rightarrow> 'v \<Rightarrow> 'v"
  viper_WriteConfig :: "'v \<Rightarrow> string option \<times> 'v"
  viper_GetString :: "string \<Rightarrow> 'v \<Rightarrow> string"

text \<open>
  The two validation loops of \<^verbatim>\<open>SetDefaultAlgorithm\<close> (lines 112-117 and 119-124):
  \<^verbatim>\<open>valid\<close> starts false and the loop stops at the first entry of that name.
\<close>

fun nameListed :: "string \<Rightarrow> Algorithm list \<Rightarrow> bool" where
  "nameListed algorithm [] = False"
| "nameListed algorithm (algo # rest) =
     (if Name algo = algorithm then True else nameListed algorithm rest)"

text \<open>
  \<^verbatim>\<open>SetDefaultAlgorithm\<close> (lines 107-140) returns its error (\<open>None\<close> for nil)
  and the state of the settings store.
\<close>

definition SetDefaultAlgorithm ::
  "'v Viper \<Rightarrow> string \<Rightarrow> bool \<Rightarrow> 'v \<Rightarrow> error option \<times> 'v" where
  "SetDefaultAlgorithm viper algorithm postQuantum store =
     (let valid = (if postQuantum then nameListed algorithm ListPostQuantumAlgorithms
                   else nameListed algorithm ListClassicAlgorithms)
      in
      if \<not> valid then (Some (InvalidAlgorithm algorithm), store)
      else
        let store1 = (if postQuantum
                      then viper_Set viper ''crypto.default_post_quantum'' algorithm store
                      else viper_Set viper ''crypto.default_classic'' algorithm store)
        in (case viper_WriteConfig viper store1 of
              (None, store2) \<Rightarrow> (None, store2)
            | (Some err, store2) \<Rightarrow> (Some (LibraryError err), store2)))"

text \<open>\<^verbatim>\<open>GetDefaultAlgorithm\<close> (lines 143-157).\<close>

definition GetDefaultAlgorithm :: "'v Viper \<Rightarrow> bool \<Rightarrow> 'v \<Rightarrow> string" where
  "GetDefaultAlgorithm viper postQuantum store =
     (if postQuantum then
        (let defaultAlgo = viper_GetString viper ''crypto.default_post_quantum'' store in
         if defaultAlgo = [] then ''kyber768'' else defaultAlgo)
      else
        (let defaultAlgo = viper_GetString viper ''crypto.default_classic'' store in
         if defaultAlgo = [] then ''aes256gcm'' else defaultAlgo))"

section \<open>Contracts of the libraries\<close>

text \<open>
  What the theorems below assume of a library is said here, one predicate per
  obligation, so that each theorem names exactly what it needs.
\<close>

text \<open>An AEAD has nonce size \<open>N\<close> and tag size \<open>T\<close>, and sealing adds exactly the tag.\<close>

definition aead_sizes :: "AEAD \<Rightarrow> nat \<Rightarrow> nat \<Rightarrow> bool" where
  "aead_sizes a N T \<longleftrightarrow>
     NonceSize a = N \<and> Overhead a = T \<and>
     (\<forall>nonce plaintext. length (Seal a nonce plaintext) = length plaintext + T)"

text \<open>Opening what was sealed under the same nonce gives the plaintext back.\<close>

definition aead_correct :: "AEAD \<Rightarrow> bool" where
  "aead_correct a \<longleftrightarrow>
     (\<forall>nonce plaintext. length nonce = NonceSize a \<longrightarrow>
        Open a nonce (Seal a nonce plaintext) = Some plaintext)"

definition gcm_sizes :: "('blk, 'pk, 'sk) Library \<Rightarrow> nat \<Rightarrow> nat \<Rightarrow> bool" where
  "gcm_sizes lib N T \<longleftrightarrow> (\<forall>key a. newAESGCM lib key = Inr a \<longrightarrow> aead_sizes a N T)"

definition gcm_correct :: "('blk, 'pk, 'sk) Library \<Rightarrow> bool" where
  "gcm_correct lib \<longleftrightarrow> (\<forall>key a. newAESGCM lib key = Inr a \<longrightarrow> aead_correct a)"

text \<open>AES accepts every 32-byte key, and GCM every AES block cipher.\<close>

definition gcm_accepts32 :: "('blk, 'pk, 'sk) Library \<Rightarrow> bool" where
  "gcm_accepts32 lib \<longleftrightarrow> (\<forall>key. length key = 32 \<longrightarrow> (\<exists>a. newAESGCM lib key = Inr a))"

definition chacha_sizes :: "('blk, 'pk, 'sk) Library \<Rightarrow> nat \<Rightarrow> nat \<Rightarrow> bool" where
  "chacha_sizes lib N T \<longleftrightarrow> (\<forall>key a. newChaCha lib key = Inr a \<longrightarrow> aead_sizes a N T)"

definition chacha_correct :: "('blk, 'pk, 'sk) Library \<Rightarrow> bool" where
  "chacha_correct lib \<longleftrightarrow> (\<forall>key a. newChaCha lib key = Inr a \<longrightarrow> aead_correct a)"

definition chacha_accepts32 :: "('blk, 'pk, 'sk) Library \<Rightarrow> bool" where
  "chacha_accepts32 lib \<longleftrightarrow> (\<forall>key. length key = 32 \<longrightarrow> (\<exists>a. newChaCha lib key = Inr a))"

text \<open>Every KEM ciphertext has the size the scheme announces.\<close>

definition kem_sizes :: "('pk, 'sk) Scheme \<Rightarrow> bool" where
  "kem_sizes S \<longleftrightarrow>
     (\<forall>pk rng ct ss rng'. Encapsulate S pk rng = Inr ((ct, ss), rng') \<longrightarrow>
        length ct = CiphertextSize S)"

text \<open>Every shared secret has 32 bytes (\<^verbatim>\<open>SharedKeySize\<close> of both Kyber sets).\<close>

definition kem_secret32 :: "('pk, 'sk) Scheme \<Rightarrow> bool" where
  "kem_secret32 S \<longleftrightarrow>
     (\<forall>pk rng ct ss rng'. Encapsulate S pk rng = Inr ((ct, ss), rng') \<longrightarrow> length ss = 32)"



text \<open>The three obligations on AES-GCM, on ChaCha20-Poly1305 and on a KEM, taken together.\<close>

definition gcm_contract :: "('blk, 'pk, 'sk) Library \<Rightarrow> nat \<Rightarrow> nat \<Rightarrow> bool" where
  "gcm_contract lib N T \<longleftrightarrow> gcm_accepts32 lib \<and> gcm_sizes lib N T \<and> gcm_correct lib"

definition chacha_contract :: "('blk, 'pk, 'sk) Library \<Rightarrow> nat \<Rightarrow> nat \<Rightarrow> bool" where
  "chacha_contract lib N T \<longleftrightarrow>
     chacha_accepts32 lib \<and> chacha_sizes lib N T \<and> chacha_correct lib"


section \<open>Notions of the specification\<close>

text \<open>
  The two errors that reject a caller's input on validation: the unresolved name of
  \<^verbatim>\<open>TestAlgorithm\<close> and the unlisted name of \<^verbatim>\<open>SetDefaultAlgorithm\<close>.
\<close>

definition validationError :: "error \<Rightarrow> bool" where
  "validationError e =
     (case e of UnsupportedAlgorithm _ \<Rightarrow> True | InvalidAlgorithm _ \<Rightarrow> True | _ \<Rightarrow> False)"

text \<open>
  The hybrid decryption as the specification words it, on the five fields handed over
  one by one: decapsulate the KEM ciphertext, unwrap the symmetric key under the shared
  secret, recombine both into the payload key, open the data ciphertext.
\<close>

definition openHybridFields ::
  "('blk, 'pk, 'sk) Library \<Rightarrow> ('pk, 'sk) Scheme \<Rightarrow> 'sk \<Rightarrow> bytes \<Rightarrow> bytes \<Rightarrow> bytes \<Rightarrow> bytes
     \<Rightarrow> bytes \<Rightarrow> bytes \<Rightarrow> TestResult \<Rightarrow> error + TestResult" where
  "openHybridFields lib scheme private kemCiphertext keyNonce wrappedKey dataNonce
       dataCiphertext data result =
     (case Decapsulate scheme private kemCiphertext of
        Inl err \<Rightarrow> Inr (result\<lparr>DecryptionSuccessful := False\<rparr>)
      | Inr secret \<Rightarrow>
     (case newAESGCM lib secret of
        Inl err \<Rightarrow> Inl err
      | Inr keyAead \<Rightarrow>
     (case Open keyAead keyNonce wrappedKey of
        None \<Rightarrow> Inr (result\<lparr>DecryptionSuccessful := False\<rparr>)
      | Some symmetricKey \<Rightarrow>
     (case hybridKey32 secret symmetricKey of
        Inl err \<Rightarrow> Inl err
      | Inr payloadKey \<Rightarrow>
     (case newAESGCM lib payloadKey of
        Inl err \<Rightarrow> Inl err
      | Inr dataAead \<Rightarrow>
     (case Open dataAead dataNonce dataCiphertext of
        None \<Rightarrow> Inr (result\<lparr>DecryptionSuccessful := False\<rparr>)
      | Some plaintext \<Rightarrow> Inr (result\<lparr>DecryptionSuccessful := (plaintext = data)\<rparr>)))))))"

text \<open>
  The serialized lengths as the specification states them: \<open>N\<close> the nonce size, \<open>T\<close>
  the tag size, \<open>K\<close> the KEM ciphertext size, \<open>S\<close> the symmetric key size and \<open>L\<close>
  the plaintext length.
\<close>

definition classicLength :: "nat \<Rightarrow> nat \<Rightarrow> nat \<Rightarrow> nat" where
  "classicLength N T L = N + L + T"

definition kemOnlyLength :: "nat \<Rightarrow> nat \<Rightarrow> nat \<Rightarrow> nat \<Rightarrow> nat" where
  "kemOnlyLength K N T L = K + N + L + T"

definition hybridLength :: "nat \<Rightarrow> nat \<Rightarrow> nat \<Rightarrow> nat \<Rightarrow> nat \<Rightarrow> nat" where
  "hybridLength K N S T L = K + 2 * N + S + 2 * T + L"

section \<open>An instance of the library interfaces\<close>

text \<open>
  A small instance of the interfaces, on which the contracts hold and the engine can be
  run: an additive cipher with a constant tag, and a KEM that masks 32 random bytes
  with a key byte.
\<close>

definition keyByte :: "bytes \<Rightarrow> byte" where
  "keyByte key = (case key of [] \<Rightarrow> 0 | b # _ \<Rightarrow> b)"

definition mockAEAD :: "bytes \<Rightarrow> AEAD" where
  "mockAEAD key =
     \<lparr>NonceSize = 12, Overhead = 16,
      Seal = (\<lambda>nonce plaintext. map (\<lambda>b. b + keyByte key) plaintext @ replicate 16 (keyByte key)),
      Open = (\<lambda>nonce ct.
        if length ct < 16 then None
        else if drop (length ct - 16) ct = replicate 16 (keyByte key)
        then Some (map (\<lambda>b. b - keyByte key) (take (length ct - 16) ct))
        else None)\<rparr>"

definition mockScheme :: "nat \<Rightarrow> (bytes, bytes) Scheme" where
  "mockScheme pad =
     \<lparr>GenerateKeyPair = (\<lambda>rng.
        if length rng < 2 then Inl ''unexpected EOF''
        else Inr ((take 2 rng, take 2 rng), drop 2 rng)),
      Encapsulate = (\<lambda>pk rng.
        if length rng < 32 then Inl ''unexpected EOF''
        else Inr ((map (\<lambda>b. b + keyByte pk) (take 32 rng) @ replicate pad 0, take 32 rng),
                  drop 32 rng)),
      Decapsulate = (\<lambda>sk ct.
        if length ct \<noteq> 32 + pad then Inl ''wrong ciphertext size''
        else Inr (map (\<lambda>b. b - keyByte sk) (take 32 ct))),
      CiphertextSize = 32 + pad\<rparr>"

definition mockLibrary :: "(bytes, bytes, bytes) Library" where
  "mockLibrary =
     \<lparr>aes_NewCipher = (\<lambda>key.
        if length key = 16 \<or> length key = 24 \<or> length key = 32 then Inr key
        else Inl ''invalid key size''),
      cipher_NewGCM = (\<lambda>block. Inr (mockAEAD block)),
      chacha20poly1305_New = (\<lambda>key.
        if length key = 32 then Inr (mockAEAD key) else Inl ''bad key length''),
      kyber768_Scheme = mockScheme 0,
      kyber1024_Scheme = mockScheme 8\<rparr>"

text \<open>A settings store kept as an association list, whose write never fails.\<close>

definition mockViper :: "(string \<times> string) list Viper" where
  "mockViper =
     \<lparr>viper_Set = (\<lambda>k v store. (k, v) # store),
      viper_WriteConfig = (\<lambda>store. (None, store)),
      viper_GetString = (\<lambda>k store. case map_of store k of None \<Rightarrow> [] | Some v \<Rightarrow> v)\<rparr>"

text \<open>A KEM that rejects every ciphertext at decapsulation.\<close>

definition rejectingScheme :: "(bytes, bytes) Scheme" where
  "rejectingScheme = (mockScheme 0)\<lparr>Decapsulate := (\<lambda>sk ct. Inl ''decapsulation failed'')\<rparr>"

text \<open>
  Three libraries that break a contract: AES-GCM never authenticates, Kyber-768 rejects
  every ciphertext, and Kyber-768 announces 64-byte ciphertexts but returns 32 bytes.
\<close>

definition failingOpenLibrary :: "(bytes, bytes, bytes) Library" where
  "failingOpenLibrary =
     mockLibrary\<lparr>cipher_NewGCM := (\<lambda>block. Inr ((mockAEAD block)\<lparr>Open := (\<lambda>nonce ct. None)\<rparr>))\<rparr>"

definition rejectingLibrary :: "(bytes, bytes, bytes) Library" where
  "rejectingLibrary = mockLibrary\<lparr>kyber768_Scheme := rejectingScheme\<rparr>"

definition shortKemLibrary :: "(bytes, bytes, bytes) Library" where
  "shortKemLibrary = mockLibrary\<lparr>kyber768_Scheme := (mockScheme 0)\<lparr>CiphertextSize := 64\<rparr>\<rparr>"

text \<open>
  A random source for one hybrid run on the instance: two bytes for the key pair, the
  symmetric key (32 times \<open>b\<close>), 32 bytes for the encapsulation and two nonces; and
  what the encryption half of the hybrid executor makes of it for the plaintext 1, 2, 3.
\<close>

definition sampleRng :: "byte \<Rightarrow> bytes" where
  "sampleRng b = replicate 2 1 @ replicate 32 b @ replicate 32 3 @ replicate 24 4"

definition sampleSealed :: "byte \<Rightarrow> bytes HybridSealed" where
  "sampleSealed b =
     \<lparr>hs_private = replicate 2 1, hs_ciphertext = replicate 32 4,
      hs_sharedSecret = replicate 32 3, hs_aesKey = replicate 32 b,
      hs_aesKeyNonce = replicate 12 4,
      hs_encryptedAesKey = replicate 32 (b + 3) @ replicate 16 3,
      hs_nonce = replicate 12 4, hs_encryptedData = [4, 5, 6] @ replicate 16 3\<rparr>"

text \<open>The result record as \<^verbatim>\<open>TestAlgorithm\<close> creates it (lines 79-81).\<close>

definition initialResult :: "string \<Rightarrow> TestResult" where
  "initialResult algorithm =
     \<lparr>AlgorithmName = algorithm, Encrypted = [], DecryptionSuccessful = False\<rparr>"

section \<open>Properties\<close>

subsection \<open>Basic facts\<close>


lemma ReadFull_Inr:
  "ReadFull rng n = Inr (bs, rng') \<Longrightarrow> length bs = n \<and> bs = take n rng \<and> rng' = drop n rng"
  by (auto simp: ReadFull_def split: if_splits)

lemma ReadFull_err: "ReadFull rng n = Inl e \<Longrightarrow> e = LibraryError ''unexpected EOF''"
  by (auto simp: ReadFull_def split: if_splits)

lemma newAESGCM_err: "newAESGCM lib key = Inl e \<Longrightarrow> \<exists>m. e = LibraryError m"
  by (auto simp: newAESGCM_def split: sum.splits)

lemma newChaCha_err: "newChaCha lib key = Inl e \<Longrightarrow> \<exists>m. e = LibraryError m"
  by (auto simp: newChaCha_def split: sum.splits)

lemma hybridKey32_err: "hybridKey32 s k = Inl e \<Longrightarrow> e = SliceBoundsPanic"
  by (auto simp: hybridKey32_def Let_def split: if_splits)

lemma hybridKey32_secret32: "length ss = 32 \<Longrightarrow> hybridKey32 ss k = Inr ss"
  by (simp add: hybridKey32_def Let_def)

lemma hybridKey32_Inr:
  "hybridKey32 ss k = Inr key \<longleftrightarrow> 32 \<le> length ss + length k \<and> key = take 32 (ss @ k)"
  by (auto simp: hybridKey32_def Let_def)

lemma registeredNames_eq:
  "registeredNames =
     [''aes256gcm'', ''chacha20poly1305'', ''kyber768'', ''kyber1024'',
      ''hybrid-kyber768-aes256gcm'']"
  by (simp add: registeredNames_def ListClassicAlgorithms_def ListPostQuantumAlgorithms_def)

lemma aead_sizes_Seal: "aead_sizes a N T \<Longrightarrow> length (Seal a n m) = length m + T"
  by (simp add: aead_sizes_def)

lemma gcm_sizes_NonceSize: "gcm_sizes lib N T \<Longrightarrow> newAESGCM lib key = Inr a \<Longrightarrow> NonceSize a = N"
  by (auto simp: gcm_sizes_def aead_sizes_def)

lemma gcm_sizes_Seal:
  "gcm_sizes lib N T \<Longrightarrow> newAESGCM lib key = Inr a \<Longrightarrow> length (Seal a n m) = length m + T"
  by (auto simp: gcm_sizes_def aead_sizes_def)

lemma nameListed_iff: "nameListed n xs \<longleftrightarrow> n \<in> Name ` set xs"
  by (induction xs) auto

subsection \<open>The decryption halves\<close>

text \<open>
  What a decryption half returns keeps the ciphertext of the result it was given, and
  its errors are framing errors, library errors or the slice panic.
\<close>

lemma decryptAEAD_Encrypted:
  "decryptAEAD a c d r = Inr res \<Longrightarrow> Encrypted res = Encrypted r"
  by (auto simp: decryptAEAD_def Let_def split: if_splits option.splits)

lemma decryptKyber_Encrypted:
  "decryptKyber lib S sk c d r = Inr res \<Longrightarrow> Encrypted res = Encrypted r"
  by (auto simp: decryptKyber_def Let_def split: if_splits option.splits sum.splits)

lemma decryptHybrid_Encrypted:
  "decryptHybrid lib S sk c d r = Inr res \<Longrightarrow> Encrypted res = Encrypted r"
  by (auto simp: decryptHybrid_def Let_def split: if_splits option.splits sum.splits)

lemma decryptAEAD_err: "decryptAEAD a c d r = Inl e \<Longrightarrow> e = CiphertextTooShort"
  by (auto simp: decryptAEAD_def Let_def split: if_splits option.splits)

lemma decryptKyber_err:
  "decryptKyber lib S sk c d r = Inl e \<Longrightarrow>
     e = CiphertextTooShort \<or> e = RemainingCiphertextTooShort \<or> (\<exists>m. e = LibraryError m)"
  by (auto simp: decryptKyber_def Let_def split: if_splits option.splits sum.splits
        dest: newAESGCM_err)

lemma decryptHybrid_err: "decryptHybrid lib S sk c d r = Inl e \<Longrightarrow> \<not> validationError e"
  by (auto simp: decryptHybrid_def Let_def validationError_def
        split: if_splits option.splits sum.splits dest!: newAESGCM_err hybridKey32_err)



lemma decryptHybrid_fields:
  assumes sz: "gcm_sizes lib N T"
    and "length ct = CiphertextSize S" "length kn = N" "length wk = 48" "length dn = N"
  shows "decryptHybrid lib S sk (ct @ (kn @ (wk @ (dn @ dc)))) data r
           = openHybridFields lib S sk ct kn wk dn dc data r"
  using assms(2-) gcm_sizes_NonceSize[OF sz]
  unfolding decryptHybrid_def openHybridFields_def
  by (auto simp: Let_def split: sum.splits option.splits)


lemma decryptHybrid_payload:
  assumes "length ct = CiphertextSize S" "Decapsulate S sk ct = Inr ss"
    "newAESGCM lib ss = Inr ka" "length kn = NonceSize ka" "length wk = 32 + 16"
    "Open ka kn wk = Some k" "32 \<le> length ss + length k"
    "newAESGCM lib (take 32 (ss @ k)) = Inr a" "length dn = NonceSize a"
  shows "decryptHybrid lib S sk (ct @ kn @ wk @ dn @ dc) data r
           = Inr (r\<lparr>DecryptionSuccessful := (Open a dn dc = Some data)\<rparr>)"
  using assms unfolding decryptHybrid_def
  by (auto simp: Let_def hybridKey32_def split: option.splits)

text \<open>
  Failed authentication, failed decapsulation and a plaintext that differs.
\<close>

lemma decryptAEAD_soft:
  assumes "length n = NonceSize a" "Open a n c \<noteq> Some data"
  shows "decryptAEAD a (n @ c) data r = Inr (r\<lparr>DecryptionSuccessful := False\<rparr>)"
  using assms by (auto simp: decryptAEAD_def Let_def split: option.splits)

lemma decryptKyber_decap_soft:
  assumes "length ct = CiphertextSize S" "Decapsulate S sk ct = Inl err"
  shows "decryptKyber lib S sk (ct @ rest) data r = Inr (r\<lparr>DecryptionSuccessful := False\<rparr>)"
  using assms by (simp add: decryptKyber_def Let_def)

lemma decryptKyber_open_soft:
  assumes "length ct = CiphertextSize S" "Decapsulate S sk ct = Inr ss"
    "newAESGCM lib ss = Inr a" "length n = NonceSize a" "Open a n c \<noteq> Some data"
  shows "decryptKyber lib S sk (ct @ n @ c) data r = Inr (r\<lparr>DecryptionSuccessful := False\<rparr>)"
  using assms by (auto simp: decryptKyber_def Let_def split: option.splits)

lemma decryptHybrid_decap_soft:
  assumes "length ct = CiphertextSize S" "Decapsulate S sk ct = Inl err"
  shows "decryptHybrid lib S sk (ct @ rest) data r = Inr (r\<lparr>DecryptionSuccessful := False\<rparr>)"
  using assms by (simp add: decryptHybrid_def Let_def)

lemma decryptHybrid_unwrap_soft:
  assumes "length ct = CiphertextSize S" "Decapsulate S sk ct = Inr ss"
    "newAESGCM lib ss = Inr ka" "length kn = NonceSize ka" "length wk = 32 + 16"
    "Open ka kn wk = None"
  shows "decryptHybrid lib S sk (ct @ kn @ wk @ rest) data r
           = Inr (r\<lparr>DecryptionSuccessful := False\<rparr>)"
  using assms by (simp add: decryptHybrid_def Let_def)

lemma decryptHybrid_open_soft:
  assumes "length ct = CiphertextSize S" "Decapsulate S sk ct = Inr ss"
    "newAESGCM lib ss = Inr ka" "length kn = NonceSize ka" "length wk = 32 + 16"
    "Open ka kn wk = Some k" "32 \<le> length ss + length k"
    "newAESGCM lib (take 32 (ss @ k)) = Inr a" "length dn = NonceSize a"
    "Open a dn dc \<noteq> Some data"
  shows "decryptHybrid lib S sk (ct @ kn @ wk @ dn @ dc) data r
           = Inr (r\<lparr>DecryptionSuccessful := False\<rparr>)"
  using decryptHybrid_payload[OF assms(1-9)] assms(10) by simp

text \<open>
  Buffers that end before a fixed-size field does.
\<close>

lemma decryptAEAD_short:
  "length enc < NonceSize a \<Longrightarrow> decryptAEAD a enc data r = Inl CiphertextTooShort"
  by (simp add: decryptAEAD_def Let_def)

lemma decryptKyber_short:
  "length enc < CiphertextSize S \<Longrightarrow> decryptKyber lib S sk enc data r = Inl CiphertextTooShort"
  by (simp add: decryptKyber_def Let_def)

lemma decryptKyber_short_nonce:
  assumes "length ct = CiphertextSize S" "Decapsulate S sk ct = Inr ss"
    "newAESGCM lib ss = Inr a" "length rest < NonceSize a"
  shows "decryptKyber lib S sk (ct @ rest) data r = Inl RemainingCiphertextTooShort"
  using assms by (simp add: decryptKyber_def Let_def)

lemma decryptHybrid_short:
  "length enc < CiphertextSize S \<Longrightarrow> decryptHybrid lib S sk enc data r = Inl CiphertextTooShort"
  by (simp add: decryptHybrid_def Let_def)

lemma decryptHybrid_short_keyNonce:
  assumes "length ct = CiphertextSize S" "Decapsulate S sk ct = Inr ss"
    "newAESGCM lib ss = Inr ka" "length rest < NonceSize ka"
  shows "decryptHybrid lib S sk (ct @ rest) data r = Inl RemainingCiphertextTooShort"
  using assms by (simp add: decryptHybrid_def Let_def)

lemma decryptHybrid_short_wrappedKey:
  assumes "length ct = CiphertextSize S" "Decapsulate S sk ct = Inr ss"
    "newAESGCM lib ss = Inr ka" "length kn = NonceSize ka" "length rest < 32 + 16"
  shows "decryptHybrid lib S sk (ct @ kn @ rest) data r = Inl RemainingTooShortForAESKey"
  using assms by (simp add: decryptHybrid_def Let_def)

lemma decryptHybrid_short_dataNonce:
  assumes "length ct = CiphertextSize S" "Decapsulate S sk ct = Inr ss"
    "newAESGCM lib ss = Inr ka" "length kn = NonceSize ka" "length wk = 32 + 16"
    "Open ka kn wk = Some k" "32 \<le> length ss + length k"
    "newAESGCM lib (take 32 (ss @ k)) = Inr a" "length rest < NonceSize a"
  shows "decryptHybrid lib S sk (ct @ kn @ wk @ rest) data r = Inl RemainingTooShortForDataNonce"
  using assms by (simp add: decryptHybrid_def Let_def hybridKey32_def)

subsection \<open>The encryption half of the hybrid executor\<close>

lemma encryptHybrid_Inr:
  assumes "encryptHybrid lib S data rng = Inr h"
  shows "\<exists>pk rng1 rng3 key a ka.
           GenerateKeyPair S rng = Inr ((pk, hs_private h), rng1) \<and>
           32 \<le> length rng1 \<and> hs_aesKey h = take 32 rng1 \<and>
           Encapsulate S pk (drop 32 rng1) = Inr ((hs_ciphertext h, hs_sharedSecret h), rng3) \<and>
           hybridKey32 (hs_sharedSecret h) (hs_aesKey h) = Inr key \<and>
           newAESGCM lib key = Inr a \<and>
           length (hs_nonce h) = NonceSize a \<and>
           hs_encryptedData h = Seal a (hs_nonce h) data \<and>
           newAESGCM lib (hs_sharedSecret h) = Inr ka \<and>
           length (hs_aesKeyNonce h) = NonceSize ka \<and>
           hs_encryptedAesKey h = Seal ka (hs_aesKeyNonce h) (hs_aesKey h)"
  using assms unfolding encryptHybrid_def
  by (auto simp: Let_def ReadFull_def split: sum.splits prod.splits if_splits)


lemma encryptHybrid_lengths:
  assumes sz: "gcm_sizes lib N T" and ks: "kem_sizes S"
    and h: "encryptHybrid lib S data rng = Inr h"
  shows "length (hs_ciphertext h) = CiphertextSize S" "length (hs_aesKeyNonce h) = N"
    "length (hs_encryptedAesKey h) = 32 + T" "length (hs_nonce h) = N"
    "length (hs_encryptedData h) = length data + T"
proof -
  from encryptHybrid_Inr[OF h] obtain pk rng1 rng3 key a ka where
    k: "hs_aesKey h = take 32 rng1" "32 \<le> length rng1" and
    e: "Encapsulate S pk (drop 32 rng1) = Inr ((hs_ciphertext h, hs_sharedSecret h), rng3)" and
    a: "newAESGCM lib key = Inr a" and ln: "length (hs_nonce h) = NonceSize a" and
    ed: "hs_encryptedData h = Seal a (hs_nonce h) data" and
    ka: "newAESGCM lib (hs_sharedSecret h) = Inr ka" and
    lkn: "length (hs_aesKeyNonce h) = NonceSize ka" and
    ek: "hs_encryptedAesKey h = Seal ka (hs_aesKeyNonce h) (hs_aesKey h)"
    by blast
  from ks e show "length (hs_ciphertext h) = CiphertextSize S" unfolding kem_sizes_def by blast
  show "length (hs_aesKeyNonce h) = N" using lkn gcm_sizes_NonceSize[OF sz ka] by simp
  show "length (hs_nonce h) = N" using ln gcm_sizes_NonceSize[OF sz a] by simp
  show "length (hs_encryptedAesKey h) = 32 + T" using gcm_sizes_Seal[OF sz ka] k by (simp add: ek)
  show "length (hs_encryptedData h) = length data + T" using gcm_sizes_Seal[OF sz a] by (simp add: ed)
qed

lemma encryptHybrid_err: "encryptHybrid lib S d rng = Inl e \<Longrightarrow> \<not> validationError e"
  by (auto simp: encryptHybrid_def Let_def validationError_def split: sum.splits prod.splits
        dest!: newAESGCM_err ReadFull_err hybridKey32_err)

subsection \<open>The executors\<close>





lemma testAES256GCM_err: "testAES256GCM lib d r rng = Inl e \<Longrightarrow> \<not> validationError e"
  by (auto simp: testAES256GCM_def Let_def validationError_def split: sum.splits prod.splits
        dest!: newAESGCM_err ReadFull_err decryptAEAD_err)

lemma testChaCha_err: "testChaCha20Poly1305 lib d r rng = Inl e \<Longrightarrow> \<not> validationError e"
  by (auto simp: testChaCha20Poly1305_def Let_def validationError_def
        split: sum.splits prod.splits dest!: newChaCha_err ReadFull_err decryptAEAD_err)

lemma testKyber_err: "testKyber lib S d r rng = Inl e \<Longrightarrow> \<not> validationError e"
  by (auto simp: testKyber_def Let_def validationError_def split: sum.splits prod.splits
        dest!: newAESGCM_err ReadFull_err decryptKyber_err)

lemma testHybrid_err: "testHybridKyberAES lib S d r rng = Inl e \<Longrightarrow> \<not> validationError e"
  by (auto simp: testHybridKyberAES_def Let_def split: sum.splits dest: encryptHybrid_err decryptHybrid_err)

lemma testAES256GCM_length:
  assumes sz: "gcm_sizes lib N T" and run: "testAES256GCM lib data r rng = Inr res"
  shows "length (Encrypted res) = classicLength N T (length data)"
proof -
  from run obtain key rng1 a nonce rng2 where
    a: "newAESGCM lib key = Inr a" and n: "ReadFull rng1 (NonceSize a) = Inr (nonce, rng2)"
    and d: "decryptAEAD a (nonce @ Seal a nonce data) data
              (r\<lparr>Encrypted := nonce @ Seal a nonce data\<rparr>) = Inr res"
    unfolding testAES256GCM_def by (auto simp: Let_def split: sum.splits prod.splits)
  from sz a have s: "aead_sizes a N T" by (auto simp: gcm_sizes_def)
  from n have "length nonce = NonceSize a" by (auto dest: ReadFull_Inr)
  with s have "length nonce = N" by (simp add: aead_sizes_def)
  with decryptAEAD_Encrypted[OF d] aead_sizes_Seal[OF s] show ?thesis
    by (simp add: classicLength_def)
qed

lemma testChaCha20Poly1305_length:
  assumes sz: "chacha_sizes lib N T" and run: "testChaCha20Poly1305 lib data r rng = Inr res"
  shows "length (Encrypted res) = classicLength N T (length data)"
proof -
  from run obtain key rng1 a nonce rng2 where
    a: "newChaCha lib key = Inr a" and n: "ReadFull rng1 (NonceSize a) = Inr (nonce, rng2)"
    and d: "decryptAEAD a (nonce @ Seal a nonce data) data
              (r\<lparr>Encrypted := nonce @ Seal a nonce data\<rparr>) = Inr res"
    unfolding testChaCha20Poly1305_def by (auto simp: Let_def split: sum.splits prod.splits)
  from sz a have s: "aead_sizes a N T" by (auto simp: chacha_sizes_def)
  from n have "length nonce = NonceSize a" by (auto dest: ReadFull_Inr)
  with s have "length nonce = N" by (simp add: aead_sizes_def)
  with decryptAEAD_Encrypted[OF d] aead_sizes_Seal[OF s] show ?thesis
    by (simp add: classicLength_def)
qed

lemma testKyber_length:
  assumes sz: "gcm_sizes lib N T" and ks: "kem_sizes S"
    and run: "testKyber lib S data r rng = Inr res"
  shows "length (Encrypted res) = kemOnlyLength (CiphertextSize S) N T (length data)"
proof -
  from run obtain pk sk rng1 ct ss rng2 a nonce rng3 where
    e: "Encapsulate S pk rng1 = Inr ((ct, ss), rng2)" and
    a: "newAESGCM lib ss = Inr a" and n: "ReadFull rng2 (NonceSize a) = Inr (nonce, rng3)"
    and d: "decryptKyber lib S sk (ct @ (nonce @ Seal a nonce data)) data
              (r\<lparr>Encrypted := ct @ (nonce @ Seal a nonce data)\<rparr>) = Inr res"
    unfolding testKyber_def by (auto simp: Let_def split: sum.splits prod.splits)
  from ks e have K: "length ct = CiphertextSize S" unfolding kem_sizes_def by blast
  from n have "length nonce = NonceSize a" by (auto dest: ReadFull_Inr)
  with gcm_sizes_NonceSize[OF sz a] have "length nonce = N" by simp
  with decryptKyber_Encrypted[OF d] gcm_sizes_Seal[OF sz a] K show ?thesis
    by (simp add: kemOnlyLength_def)
qed

lemma testHybridKyberAES_Inr:
  assumes "testHybridKyberAES lib S data r rng = Inr res"
  shows "\<exists>h. encryptHybrid lib S data rng = Inr h \<and>
           Encrypted res = hs_ciphertext h @ (hs_aesKeyNonce h @ (hs_encryptedAesKey h @
                  (hs_nonce h @ hs_encryptedData h)))"
  using assms unfolding testHybridKyberAES_def
  by (auto simp: Let_def split: sum.splits dest!: decryptHybrid_Encrypted)

lemma testHybridKyberAES_length:
  assumes sz: "gcm_sizes lib N T" and ks: "kem_sizes S"
    and run: "testHybridKyberAES lib S data r rng = Inr res"
  shows "length (Encrypted res) = hybridLength (CiphertextSize S) N 32 T (length data)"
proof -
  from testHybridKyberAES_Inr[OF run] obtain h where
    h: "encryptHybrid lib S data rng = Inr h" and
    enc: "Encrypted res = hs_ciphertext h @ (hs_aesKeyNonce h @ (hs_encryptedAesKey h @
                  (hs_nonce h @ hs_encryptedData h)))" by blast
  show ?thesis using encryptHybrid_lengths[OF sz ks h] by (simp add: enc hybridLength_def)
qed

subsection \<open>The instance keeps the contracts\<close>

lemma keyByte_replicate: "n \<noteq> 0 \<Longrightarrow> keyByte (replicate n b) = b"
  by (cases n) (simp_all add: keyByte_def)

lemma mock_newAESGCM:
  "newAESGCM mockLibrary key =
     (if length key = 16 \<or> length key = 24 \<or> length key = 32 then Inr (mockAEAD key)
      else Inl (LibraryError ''invalid key size''))"
  by (simp add: newAESGCM_def mockLibrary_def)

lemma mock_newChaCha:
  "newChaCha mockLibrary key =
     (if length key = 32 then Inr (mockAEAD key) else Inl (LibraryError ''bad key length''))"
  by (simp add: newChaCha_def mockLibrary_def)

lemma mock_aead32: "newAESGCM mockLibrary (replicate 32 b) = Inr (mockAEAD (replicate 32 b))"
  by (simp add: mock_newAESGCM)

lemma mock_NonceSize: "NonceSize (mockAEAD key) = 12"
  by (simp add: mockAEAD_def)

lemma mockAEAD_sizes: "aead_sizes (mockAEAD key) 12 16"
  by (simp add: aead_sizes_def mockAEAD_def)

lemma mockAEAD_correct: "aead_correct (mockAEAD key)"
  by (simp add: aead_correct_def mockAEAD_def comp_def)

lemma mock_gcm_contract: "gcm_contract mockLibrary 12 16"
  by (auto simp: gcm_contract_def gcm_accepts32_def gcm_sizes_def gcm_correct_def
        mock_newAESGCM mockAEAD_sizes mockAEAD_correct split: if_splits)

lemma mock_chacha_contract: "chacha_contract mockLibrary 12 16"
  by (auto simp: chacha_contract_def chacha_accepts32_def chacha_sizes_def chacha_correct_def
        mock_newChaCha mockAEAD_sizes mockAEAD_correct split: if_splits)

lemma mock_gcm_sizes: "gcm_sizes mockLibrary 12 16"
  using mock_gcm_contract by (simp add: gcm_contract_def)

lemma mock_chacha_sizes: "chacha_sizes mockLibrary 12 16"
  using mock_chacha_contract by (simp add: chacha_contract_def)


lemma mockScheme_sizes: "kem_sizes (mockScheme pad)"
  by (auto simp: kem_sizes_def mockScheme_def split: if_splits)

lemma mockScheme_secret32: "kem_secret32 (mockScheme pad)"
  by (auto simp: kem_secret32_def mockScheme_def split: if_splits)



lemma mock_kyber768: "kyber768_Scheme mockLibrary = mockScheme 0"
  by (simp add: mockLibrary_def)

lemma mock_kyber1024: "kyber1024_Scheme mockLibrary = mockScheme 8"
  by (simp add: mockLibrary_def)

lemma mock_kem_sizes768: "kem_sizes (kyber768_Scheme mockLibrary)"
  by (simp add: mock_kyber768 mockScheme_sizes)

lemma mock_kem_sizes1024: "kem_sizes (kyber1024_Scheme mockLibrary)"
  by (simp add: mock_kyber1024 mockScheme_sizes)

lemma mock_kem_sizes0: "kem_sizes (mockScheme 0)"
  by (rule mockScheme_sizes)

lemma mock_CiphertextSize: "CiphertextSize (mockScheme 0) = 32"
  by (simp add: mockScheme_def)

lemma mock_Decapsulate:
  "Decapsulate (mockScheme 0) (replicate 2 1) (replicate 32 4) = Inr (replicate 32 3)"
  by (simp add: mockScheme_def keyByte_replicate)

lemma rejecting_Decapsulate: "Decapsulate rejectingScheme sk ct = Inl ''decapsulation failed''"
  by (simp add: rejectingScheme_def)

lemma rejecting_CiphertextSize: "CiphertextSize rejectingScheme = 32"
  by (simp add: rejectingScheme_def mockScheme_def)

lemma mock_unwrap:
  "Open (mockAEAD (replicate 32 3)) kn (replicate 32 5 @ replicate 16 3) = Some (replicate 32 2)"
  by (simp add: mockAEAD_def keyByte_replicate)

lemma mock_unwrap_bad:
  "Open (mockAEAD (replicate 32 3)) kn (replicate 48 0) = None"
  by (simp add: mockAEAD_def keyByte_replicate)

lemma mock_open_bad:
  "Open (mockAEAD (replicate 32 3)) n (replicate 16 0) = None"
  by (simp add: mockAEAD_def keyByte_replicate)

lemma mock_payload_key: "take 32 (replicate 32 (3::byte) @ replicate 32 2) = replicate 32 3"
  by simp

text \<open>
  Runs of the engine on the instance.
\<close>

lemma encryptHybrid_sample:
  "encryptHybrid mockLibrary (mockScheme 0) [1, 2, 3] (sampleRng b) = Inr (sampleSealed b)"
  by (simp add: encryptHybrid_def sampleRng_def sampleSealed_def mockScheme_def ReadFull_def
        hybridKey32_def mock_newAESGCM mockAEAD_def keyByte_replicate Let_def add.commute)

lemma testHybrid_sample:
  "testHybridKyberAES mockLibrary (mockScheme 0) [1, 2, 3]
       (initialResult ''hybrid-kyber768-aes256gcm'') (sampleRng 2)
     = Inr \<lparr>AlgorithmName = ''hybrid-kyber768-aes256gcm'',
            Encrypted = replicate 32 4 @ replicate 12 4 @ (replicate 32 5 @ replicate 16 3) @
                        replicate 12 4 @ [4, 5, 6] @ replicate 16 3,
            DecryptionSuccessful = True\<rparr>"
  unfolding sampleRng_def initialResult_def by code_simp

lemma run_hybrid_sample:
  "TestAlgorithm mockLibrary ''hybrid-kyber768-aes256gcm'' [1, 2, 3] (sampleRng 2)
     = Inr \<lparr>AlgorithmName = ''hybrid-kyber768-aes256gcm'',
            Encrypted = replicate 32 4 @ replicate 12 4 @ replicate 32 5 @ replicate 16 3 @
                        replicate 12 4 @ [4, 5, 6] @ replicate 16 3,
            DecryptionSuccessful = True\<rparr>"
  unfolding sampleRng_def by code_simp

lemma run_kyber_sample:
  "TestAlgorithm mockLibrary ''kyber768'' [1, 2, 3] (replicate 46 7)
     = Inr \<lparr>AlgorithmName = ''kyber768'',
            Encrypted = replicate 32 14 @ replicate 12 7 @ [8, 9, 10] @ replicate 16 7,
            DecryptionSuccessful = True\<rparr>"
  by code_simp

lemma run_aes_sample:
  "TestAlgorithm mockLibrary ''aes256gcm'' [1, 2, 3] (replicate 44 5)
     = Inr \<lparr>AlgorithmName = ''aes256gcm'',
            Encrypted = replicate 12 5 @ [6, 7, 8] @ replicate 16 5,
            DecryptionSuccessful = True\<rparr>"
  by code_simp

text \<open>
  Runs on the libraries that break a contract: a failed authentication and a failed
  decapsulation come back as a result marked unsuccessful, a ciphertext shorter than
  the KEM ciphertext size as an error.
\<close>

lemma soft_failure_runs:
  "TestAlgorithm failingOpenLibrary ''aes256gcm'' [1, 2, 3] (replicate 44 5)
     = Inr \<lparr>AlgorithmName = ''aes256gcm'',
            Encrypted = replicate 12 5 @ [6, 7, 8] @ replicate 16 5,
            DecryptionSuccessful = False\<rparr>"
  "TestAlgorithm failingOpenLibrary ''hybrid-kyber768-aes256gcm'' [1, 2, 3] (sampleRng 2)
     = Inr \<lparr>AlgorithmName = ''hybrid-kyber768-aes256gcm'',
            Encrypted = replicate 32 4 @ replicate 12 4 @ replicate 32 5 @ replicate 16 3 @
                        replicate 12 4 @ [4, 5, 6] @ replicate 16 3,
            DecryptionSuccessful = False\<rparr>"
  "TestAlgorithm rejectingLibrary ''kyber768'' [1, 2, 3] (replicate 46 7)
     = Inr \<lparr>AlgorithmName = ''kyber768'',
            Encrypted = replicate 32 14 @ replicate 12 7 @ [8, 9, 10] @ replicate 16 7,
            DecryptionSuccessful = False\<rparr>"
  "TestAlgorithm rejectingLibrary ''hybrid-kyber768-aes256gcm'' [1, 2, 3] (sampleRng 2)
     = Inr \<lparr>AlgorithmName = ''hybrid-kyber768-aes256gcm'',
            Encrypted = replicate 32 4 @ replicate 12 4 @ replicate 32 5 @ replicate 16 3 @
                        replicate 12 4 @ [4, 5, 6] @ replicate 16 3,
            DecryptionSuccessful = False\<rparr>"
  unfolding sampleRng_def by code_simp+

lemma framing_error_runs:
  "TestAlgorithm shortKemLibrary ''kyber768'' [1, 2, 3] (replicate 46 7) = Inl CiphertextTooShort"
  unfolding sampleRng_def by code_simp+

section \<open>The claims\<close>

subsection \<open>Round trip of the self-test\<close>



subsection \<open>Unsupported names\<close>

text \<open>
  Claim C2. A name that is none of the five registered ones makes
  \<^verbatim>\<open>TestAlgorithm\<close> return the unsupported-algorithm error and no result, whatever
  the data; and a registered name is never answered with a validation error, so the
  unresolved name is the only input the engine rejects on validation.
\<close>

theorem TestAlgorithm_unsupported:
  "(algorithm \<notin> set registeredNames \<longrightarrow>
      TestAlgorithm lib algorithm data rng = Inl (UnsupportedAlgorithm algorithm)) \<and>
   (algorithm \<in> set registeredNames \<longrightarrow>
      (\<forall>e. TestAlgorithm lib algorithm data rng = Inl e \<longrightarrow> \<not> validationError e))"
proof (intro conjI impI allI)
  assume "algorithm \<notin> set registeredNames"
  then show "TestAlgorithm lib algorithm data rng = Inl (UnsupportedAlgorithm algorithm)"
    by (simp add: registeredNames_eq TestAlgorithm_def)
next
  fix e
  assume "algorithm \<in> set registeredNames" and "TestAlgorithm lib algorithm data rng = Inl e"
  then show "\<not> validationError e"
    by (auto simp: registeredNames_eq TestAlgorithm_def
          dest: testAES256GCM_err testChaCha_err testKyber_err testHybrid_err)
qed

text \<open>
  Witness of claim C2, on the instance: an unknown name, and a registered one on a dry random source.
\<close>

theorem TestAlgorithm_unsupported_witness:
  "''unsupported-algorithm'' \<notin> set registeredNames \<and>
   TestAlgorithm mockLibrary ''unsupported-algorithm'' [1, 2, 3] []
     = Inl (UnsupportedAlgorithm ''unsupported-algorithm'') \<and>
   ''aes256gcm'' \<in> set registeredNames \<and>
   TestAlgorithm mockLibrary ''aes256gcm'' [1, 2, 3] [] = Inl (LibraryError ''unexpected EOF'') \<and>
   \<not> validationError (LibraryError ''unexpected EOF'')"
proof -
  have 1: "''unsupported-algorithm'' \<notin> set registeredNames" by (simp add: registeredNames_eq)
  have 2: "''aes256gcm'' \<in> set registeredNames" by (simp add: registeredNames_eq)
  have 3: "TestAlgorithm mockLibrary ''aes256gcm'' [1, 2, 3] []
             = Inl (LibraryError ''unexpected EOF'')"
    by (simp add: TestAlgorithm_def testAES256GCM_def ReadFull_def)
  from TestAlgorithm_unsupported[of "''unsupported-algorithm''" mockLibrary "[1, 2, 3]" "[]"]
       TestAlgorithm_unsupported[of "''aes256gcm''" mockLibrary "[1, 2, 3]" "[]"] 1 2 3
  show ?thesis by simp
qed

subsection \<open>Layout of the hybrid ciphertext\<close>

text \<open>
  Claim C3. What the hybrid executor returns as \<open>Encrypted\<close> is the KEM ciphertext,
  the key-wrap nonce, the wrapped symmetric key with its tag, the data nonce and the
  data ciphertext with its tag, in this order: the KEM ciphertext is the one
  encapsulation returned with the shared secret, the wrapped key is the symmetric key
  sealed under the shared secret, the data ciphertext is the plaintext sealed under the
  data nonce. The first four have the sizes \<open>K\<close>, \<open>N\<close>, \<open>32 + 16\<close> and \<open>N\<close>, and on
  every buffer of five fields, the first four of these sizes, the decryption half opens
  exactly these fields, in this order. GCM is assumed to have nonce size \<open>N\<close> and a
  16-byte tag, and the KEM to return ciphertexts of the size it announces.
\<close>

theorem hybrid_layout:
  assumes sz: "gcm_sizes lib N 16" and ks: "kem_sizes S"
  shows "(\<forall>res. testHybridKyberAES lib S data r rng = Inr res \<longrightarrow>
            (\<exists>h. encryptHybrid lib S data rng = Inr h \<and>
                 Encrypted res = hs_ciphertext h @ hs_aesKeyNonce h @ hs_encryptedAesKey h @
                                 hs_nonce h @ hs_encryptedData h \<and>
                 (\<exists>pk r1 r2. Encapsulate S pk r1
                                = Inr ((hs_ciphertext h, hs_sharedSecret h), r2)) \<and>
                 (\<exists>ka. newAESGCM lib (hs_sharedSecret h) = Inr ka \<and>
                       hs_encryptedAesKey h = Seal ka (hs_aesKeyNonce h) (hs_aesKey h)) \<and>
                 (\<exists>key a. newAESGCM lib key = Inr a \<and>
                       hs_encryptedData h = Seal a (hs_nonce h) data) \<and>
                 length (hs_ciphertext h) = CiphertextSize S \<and>
                 length (hs_aesKeyNonce h) = N \<and>
                 length (hs_encryptedAesKey h) = 32 + 16 \<and>
                 length (hs_nonce h) = N)) \<and>
         (\<forall>sk ct kn wk dn dc res0.
            length ct = CiphertextSize S \<and> length kn = N \<and> length wk = 32 + 16 \<and>
            length dn = N \<longrightarrow>
            decryptHybrid lib S sk (ct @ kn @ wk @ dn @ dc) data res0
              = openHybridFields lib S sk ct kn wk dn dc data res0)"
proof (intro conjI allI impI)
  fix res
  assume run: "testHybridKyberAES lib S data r rng = Inr res"
  from testHybridKyberAES_Inr[OF run] obtain h where
    h: "encryptHybrid lib S data rng = Inr h" and
    enc: "Encrypted res = hs_ciphertext h @ (hs_aesKeyNonce h @ (hs_encryptedAesKey h @
                  (hs_nonce h @ hs_encryptedData h)))" by blast
  from encryptHybrid_Inr[OF h] obtain pk rng1 rng3 key a ka where
    e: "Encapsulate S pk (drop 32 rng1) = Inr ((hs_ciphertext h, hs_sharedSecret h), rng3)" and
    a: "newAESGCM lib key = Inr a" and
    ed: "hs_encryptedData h = Seal a (hs_nonce h) data" and
    ka: "newAESGCM lib (hs_sharedSecret h) = Inr ka" and
    ek: "hs_encryptedAesKey h = Seal ka (hs_aesKeyNonce h) (hs_aesKey h)"
    by blast
  note l = encryptHybrid_lengths[OF sz ks h]
  have "(\<exists>pk r1 r2. Encapsulate S pk r1 = Inr ((hs_ciphertext h, hs_sharedSecret h), r2))"
    using e by blast
  moreover have "(\<exists>ka. newAESGCM lib (hs_sharedSecret h) = Inr ka \<and>
                       hs_encryptedAesKey h = Seal ka (hs_aesKeyNonce h) (hs_aesKey h))"
    using ka ek by blast
  moreover have "(\<exists>key a. newAESGCM lib key = Inr a \<and>
                       hs_encryptedData h = Seal a (hs_nonce h) data)"
    using a ed by blast
  ultimately show "\<exists>h. encryptHybrid lib S data rng = Inr h \<and>
                 Encrypted res = hs_ciphertext h @ hs_aesKeyNonce h @ hs_encryptedAesKey h @
                                 hs_nonce h @ hs_encryptedData h \<and>
                 (\<exists>pk r1 r2. Encapsulate S pk r1
                                = Inr ((hs_ciphertext h, hs_sharedSecret h), r2)) \<and>
                 (\<exists>ka. newAESGCM lib (hs_sharedSecret h) = Inr ka \<and>
                       hs_encryptedAesKey h = Seal ka (hs_aesKeyNonce h) (hs_aesKey h)) \<and>
                 (\<exists>key a. newAESGCM lib key = Inr a \<and>
                       hs_encryptedData h = Seal a (hs_nonce h) data) \<and>
                 length (hs_ciphertext h) = CiphertextSize S \<and>
                 length (hs_aesKeyNonce h) = N \<and>
                 length (hs_encryptedAesKey h) = 32 + 16 \<and>
                 length (hs_nonce h) = N"
    using h enc l(1-4) by (intro exI[of _ h] conjI) assumption+
next
  fix sk and ct kn wk dn dc :: bytes and res0
  assume "length ct = CiphertextSize S \<and> length kn = N \<and> length wk = 32 + 16 \<and> length dn = N"
  then show "decryptHybrid lib S sk (ct @ kn @ wk @ dn @ dc) data res0
              = openHybridFields lib S sk ct kn wk dn dc data res0"
    using decryptHybrid_fields[OF sz, of ct S kn wk dn sk dc data res0] by simp
qed

text \<open>
  Witness of claim C3, on the instance, for the run on \<open>sampleRng 2\<close> and the fields it produced.
\<close>

theorem hybrid_layout_witness:
  "gcm_sizes mockLibrary 12 16 \<and> kem_sizes (mockScheme 0) \<and>
   testHybridKyberAES mockLibrary (mockScheme 0) [1, 2, 3]
       (initialResult ''hybrid-kyber768-aes256gcm'') (sampleRng 2)
     = Inr \<lparr>AlgorithmName = ''hybrid-kyber768-aes256gcm'',
            Encrypted = replicate 32 4 @ replicate 12 4 @ (replicate 32 5 @ replicate 16 3) @
                        replicate 12 4 @ [4, 5, 6] @ replicate 16 3,
            DecryptionSuccessful = True\<rparr> \<and>
   encryptHybrid mockLibrary (mockScheme 0) [1, 2, 3] (sampleRng 2) = Inr (sampleSealed 2) \<and>
   replicate 32 4 @ replicate 12 4 @ (replicate 32 5 @ replicate 16 3) @
       replicate 12 4 @ [4, 5, 6] @ replicate 16 3
     = hs_ciphertext (sampleSealed 2) @ hs_aesKeyNonce (sampleSealed 2) @
       hs_encryptedAesKey (sampleSealed 2) @ hs_nonce (sampleSealed 2) @
       hs_encryptedData (sampleSealed 2) \<and>
   (length (replicate 32 (4::byte)) = CiphertextSize (mockScheme 0) \<and>
    length (replicate 12 (4::byte)) = 12 \<and>
    length (replicate 32 (5::byte) @ replicate 16 3) = 32 + 16 \<and>
    length (replicate 12 (4::byte)) = 12) \<and>
   decryptHybrid mockLibrary (mockScheme 0) (replicate 2 1)
       (replicate 32 4 @ replicate 12 4 @ (replicate 32 5 @ replicate 16 3) @
        replicate 12 4 @ [4, 5, 6] @ replicate 16 3) [1, 2, 3]
       (initialResult ''hybrid-kyber768-aes256gcm'')
     = openHybridFields mockLibrary (mockScheme 0) (replicate 2 1) (replicate 32 4)
         (replicate 12 4) (replicate 32 5 @ replicate 16 3) (replicate 12 4)
         ([4, 5, 6] @ replicate 16 3) [1, 2, 3] (initialResult ''hybrid-kyber768-aes256gcm'')"
proof -
  note T = hybrid_layout[OF mock_gcm_sizes mock_kem_sizes0, where data = "[1, 2, 3]"
             and r = "initialResult ''hybrid-kyber768-aes256gcm''" and rng = "sampleRng 2"]
  note T1 = T[THEN conjunct1, rule_format, OF testHybrid_sample]
  note T2 = T[THEN conjunct2, rule_format]
  have h: "length (replicate 32 (4::byte)) = CiphertextSize (mockScheme 0) \<and>
    length (replicate 12 (4::byte)) = 12 \<and>
    length (replicate 32 (5::byte) @ replicate 16 3) = 32 + 16 \<and>
    length (replicate 12 (4::byte)) = 12"
    by (simp add: mock_CiphertextSize)
  have e: "replicate 32 4 @ replicate 12 4 @ (replicate 32 5 @ replicate 16 3) @
       replicate 12 4 @ [4, 5, 6] @ replicate 16 3
     = hs_ciphertext (sampleSealed 2) @ hs_aesKeyNonce (sampleSealed 2) @
       hs_encryptedAesKey (sampleSealed 2) @ hs_nonce (sampleSealed 2) @
       hs_encryptedData (sampleSealed 2)"
    using T1 by (simp add: encryptHybrid_sample)
  from mock_gcm_sizes mock_kem_sizes0 testHybrid_sample encryptHybrid_sample[of 2] e h T2[OF h]
  show ?thesis by blast
qed

subsection \<open>Length of the serialized ciphertext\<close>

text \<open>
  Claim C4. The length of the ciphertext a run of \<^verbatim>\<open>TestAlgorithm\<close> returns is
  fixed by the plaintext length and the sizes of the algorithm: \<open>N + L + T\<close> for the
  two classic schemes, \<open>K + N + L + T\<close> for the two KEM schemes and
  \<open>K + 2N + 32 + 2T + L\<close> for the hybrid scheme.
\<close>

theorem serialized_length:
  assumes gcm: "gcm_sizes lib N T" and cha: "chacha_sizes lib Nc Tc"
    and k768: "kem_sizes (kyber768_Scheme lib)" and k1024: "kem_sizes (kyber1024_Scheme lib)"
    and run: "TestAlgorithm lib algorithm data rng = Inr res"
  shows "length (Encrypted res) =
          (if algorithm = ''aes256gcm'' then classicLength N T (length data)
           else if algorithm = ''chacha20poly1305'' then classicLength Nc Tc (length data)
           else if algorithm = ''kyber768''
             then kemOnlyLength (CiphertextSize (kyber768_Scheme lib)) N T (length data)
           else if algorithm = ''kyber1024''
             then kemOnlyLength (CiphertextSize (kyber1024_Scheme lib)) N T (length data)
           else hybridLength (CiphertextSize (kyber768_Scheme lib)) N 32 T (length data))"
  using run testAES256GCM_length[OF gcm] testChaCha20Poly1305_length[OF cha]
    testKyber_length[OF gcm k768] testKyber_length[OF gcm k1024]
    testHybridKyberAES_length[OF gcm k768]
  unfolding TestAlgorithm_def Let_def
  by (simp split: if_splits)

text \<open>
  Witness of claim C4, on the instance: the hybrid run returns 123 bytes for a three-byte plaintext.
\<close>

theorem serialized_length_witness:
  "gcm_sizes mockLibrary 12 16 \<and> chacha_sizes mockLibrary 12 16 \<and>
   kem_sizes (kyber768_Scheme mockLibrary) \<and> kem_sizes (kyber1024_Scheme mockLibrary) \<and>
   TestAlgorithm mockLibrary ''hybrid-kyber768-aes256gcm'' [1, 2, 3] (sampleRng 2)
     = Inr \<lparr>AlgorithmName = ''hybrid-kyber768-aes256gcm'',
            Encrypted = replicate 32 4 @ replicate 12 4 @ replicate 32 5 @ replicate 16 3 @
                        replicate 12 4 @ [4, 5, 6] @ replicate 16 3,
            DecryptionSuccessful = True\<rparr> \<and>
   length (replicate 32 (4::byte) @ replicate 12 4 @ replicate 32 5 @ replicate 16 3 @
           replicate 12 4 @ [4, 5, 6] @ replicate 16 3)
     = hybridLength 32 12 32 16 3"
  using serialized_length[OF mock_gcm_sizes mock_chacha_sizes mock_kem_sizes768
          mock_kem_sizes1024 run_hybrid_sample]
    mock_gcm_sizes mock_chacha_sizes mock_kem_sizes768 mock_kem_sizes1024 run_hybrid_sample
  by (simp add: mock_kyber768 mock_CiphertextSize hybridLength_def)

subsection \<open>The hybrid ciphertext is the longest\<close>

text \<open>
  Claim C5. For one plaintext, the hybrid ciphertext is strictly longer than the
  ciphertext of the KEM-only scheme on the same parameter set (Kyber-768) and strictly
  longer than the ciphertext of AES-256-GCM alone, whatever the random sources of the
  three runs.
\<close>

theorem hybrid_longer:
  assumes gcm: "gcm_sizes lib N T" and k768: "kem_sizes (kyber768_Scheme lib)"
    and hyb: "TestAlgorithm lib ''hybrid-kyber768-aes256gcm'' data rng1 = Inr hybrid"
    and kem: "TestAlgorithm lib ''kyber768'' data rng2 = Inr kemOnly"
    and aes: "TestAlgorithm lib ''aes256gcm'' data rng3 = Inr classic"
  shows "length (Encrypted hybrid) > length (Encrypted kemOnly) \<and>
         length (Encrypted hybrid) > length (Encrypted classic)"
proof -
  have 1: "length (Encrypted hybrid) = hybridLength (CiphertextSize (kyber768_Scheme lib)) N 32 T (length data)"
    using hyb testHybridKyberAES_length[OF gcm k768] by (simp add: TestAlgorithm_def)
  have 2: "length (Encrypted kemOnly) = kemOnlyLength (CiphertextSize (kyber768_Scheme lib)) N T (length data)"
    using kem testKyber_length[OF gcm k768] by (simp add: TestAlgorithm_def)
  have 3: "length (Encrypted classic) = classicLength N T (length data)"
    using aes testAES256GCM_length[OF gcm] by (simp add: TestAlgorithm_def)
  show ?thesis unfolding 1 2 3 by (simp add: hybridLength_def kemOnlyLength_def classicLength_def)
qed

text \<open>
  Witness of claim C5, on the instance: 123 bytes against 63 and 31.
\<close>

theorem hybrid_longer_witness:
  "gcm_sizes mockLibrary 12 16 \<and> kem_sizes (kyber768_Scheme mockLibrary) \<and>
   TestAlgorithm mockLibrary ''hybrid-kyber768-aes256gcm'' [1, 2, 3] (sampleRng 2)
     = Inr \<lparr>AlgorithmName = ''hybrid-kyber768-aes256gcm'',
            Encrypted = replicate 32 4 @ replicate 12 4 @ replicate 32 5 @ replicate 16 3 @
                        replicate 12 4 @ [4, 5, 6] @ replicate 16 3,
            DecryptionSuccessful = True\<rparr> \<and>
   TestAlgorithm mockLibrary ''kyber768'' [1, 2, 3] (replicate 46 7)
     = Inr \<lparr>AlgorithmName = ''kyber768'',
            Encrypted = replicate 32 14 @ replicate 12 7 @ [8, 9, 10] @ replicate 16 7,
            DecryptionSuccessful = True\<rparr> \<and>
   TestAlgorithm mockLibrary ''aes256gcm'' [1, 2, 3] (replicate 44 5)
     = Inr \<lparr>AlgorithmName = ''aes256gcm'',
            Encrypted = replicate 12 5 @ [6, 7, 8] @ replicate 16 5,
            DecryptionSuccessful = True\<rparr> \<and>
   length (replicate 32 (4::byte) @ replicate 12 4 @ replicate 32 5 @ replicate 16 3 @
           replicate 12 4 @ [4, 5, 6] @ replicate 16 3)
     > length (replicate 32 (14::byte) @ replicate 12 7 @ [8, 9, 10] @ replicate 16 7) \<and>
   length (replicate 32 (4::byte) @ replicate 12 4 @ replicate 32 5 @ replicate 16 3 @
           replicate 12 4 @ [4, 5, 6] @ replicate 16 3)
     > length (replicate 12 (5::byte) @ [6, 7, 8] @ replicate 16 5)"
  using hybrid_longer[OF mock_gcm_sizes mock_kem_sizes768 run_hybrid_sample run_kyber_sample
          run_aes_sample]
    mock_gcm_sizes mock_kem_sizes768 run_hybrid_sample run_kyber_sample run_aes_sample
  by simp

subsection \<open>Soft failures\<close>

text \<open>
  Claim C6. In every executor a failed authentication, a failed decapsulation and a
  decrypted plaintext other than the input end the self-test with the result, marked
  \<open>DecryptionSuccessful = False\<close>, and no error. The buffer is given by its fields;
  \<open>Open a n c \<noteq> Some data\<close> covers both the failed authentication and the plaintext
  that differs. The two classic executors share \<open>decryptAEAD\<close>, the two KEM executors
  \<open>decryptKyber\<close>.
\<close>

theorem soft_failures:
  "(\<forall>a n c. length n = NonceSize a \<and> Open a n c \<noteq> Some data \<longrightarrow>
      decryptAEAD a (n @ c) data r = Inr (r\<lparr>DecryptionSuccessful := False\<rparr>)) \<and>
   (\<forall>sk ct rest err. length ct = CiphertextSize S \<and> Decapsulate S sk ct = Inl err \<longrightarrow>
      decryptKyber lib S sk (ct @ rest) data r = Inr (r\<lparr>DecryptionSuccessful := False\<rparr>)) \<and>
   (\<forall>sk ct ss a n c. length ct = CiphertextSize S \<and> Decapsulate S sk ct = Inr ss \<and>
      newAESGCM lib ss = Inr a \<and> length n = NonceSize a \<and> Open a n c \<noteq> Some data \<longrightarrow>
      decryptKyber lib S sk (ct @ n @ c) data r = Inr (r\<lparr>DecryptionSuccessful := False\<rparr>)) \<and>
   (\<forall>sk ct rest err. length ct = CiphertextSize S \<and> Decapsulate S sk ct = Inl err \<longrightarrow>
      decryptHybrid lib S sk (ct @ rest) data r = Inr (r\<lparr>DecryptionSuccessful := False\<rparr>)) \<and>
   (\<forall>sk ct ss ka kn wk rest. length ct = CiphertextSize S \<and> Decapsulate S sk ct = Inr ss \<and>
      newAESGCM lib ss = Inr ka \<and> length kn = NonceSize ka \<and> length wk = 32 + 16 \<and>
      Open ka kn wk = None \<longrightarrow>
      decryptHybrid lib S sk (ct @ kn @ wk @ rest) data r
        = Inr (r\<lparr>DecryptionSuccessful := False\<rparr>)) \<and>
   (\<forall>sk ct ss ka kn wk k a dn dc. length ct = CiphertextSize S \<and>
      Decapsulate S sk ct = Inr ss \<and> newAESGCM lib ss = Inr ka \<and>
      length kn = NonceSize ka \<and> length wk = 32 + 16 \<and> Open ka kn wk = Some k \<and>
      32 \<le> length ss + length k \<and> newAESGCM lib (take 32 (ss @ k)) = Inr a \<and>
      length dn = NonceSize a \<and> Open a dn dc \<noteq> Some data \<longrightarrow>
      decryptHybrid lib S sk (ct @ kn @ wk @ dn @ dc) data r
        = Inr (r\<lparr>DecryptionSuccessful := False\<rparr>))"
proof (intro conjI allI impI; elim conjE)
  fix a :: AEAD and n c assume "length n = NonceSize a" "Open a n c \<noteq> Some data"
  then show "decryptAEAD a (n @ c) data r = Inr (r\<lparr>DecryptionSuccessful := False\<rparr>)"
    by (rule decryptAEAD_soft)
next
  fix sk ct and rest :: bytes and err
  assume "length ct = CiphertextSize S" "Decapsulate S sk ct = Inl err"
  then show "decryptKyber lib S sk (ct @ rest) data r
               = Inr (r\<lparr>DecryptionSuccessful := False\<rparr>)"
    by (rule decryptKyber_decap_soft)
next
  fix sk ct ss a n c
  assume "length ct = CiphertextSize S" "Decapsulate S sk ct = Inr ss"
    "newAESGCM lib ss = Inr a" "length n = NonceSize a" "Open a n c \<noteq> Some data"
  then show "decryptKyber lib S sk (ct @ n @ c) data r
               = Inr (r\<lparr>DecryptionSuccessful := False\<rparr>)"
    by (rule decryptKyber_open_soft)
next
  fix sk ct and rest :: bytes and err
  assume "length ct = CiphertextSize S" "Decapsulate S sk ct = Inl err"
  then show "decryptHybrid lib S sk (ct @ rest) data r
               = Inr (r\<lparr>DecryptionSuccessful := False\<rparr>)"
    by (rule decryptHybrid_decap_soft)
next
  fix sk ct ss ka kn and wk rest :: bytes
  assume "length ct = CiphertextSize S" "Decapsulate S sk ct = Inr ss"
    "newAESGCM lib ss = Inr ka" "length kn = NonceSize ka" "length wk = 32 + 16"
    "Open ka kn wk = None"
  then show "decryptHybrid lib S sk (ct @ kn @ wk @ rest) data r
               = Inr (r\<lparr>DecryptionSuccessful := False\<rparr>)"
    by (rule decryptHybrid_unwrap_soft)
next
  fix sk ct ss ka kn and wk :: bytes and k a dn dc
  assume "length ct = CiphertextSize S" "Decapsulate S sk ct = Inr ss"
    "newAESGCM lib ss = Inr ka" "length kn = NonceSize ka" "length wk = 32 + 16"
    "Open ka kn wk = Some k" "32 \<le> length ss + length k"
    "newAESGCM lib (take 32 (ss @ k)) = Inr a" "length dn = NonceSize a"
    "Open a dn dc \<noteq> Some data"
  then show "decryptHybrid lib S sk (ct @ kn @ wk @ dn @ dc) data r
               = Inr (r\<lparr>DecryptionSuccessful := False\<rparr>)"
    by (rule decryptHybrid_open_soft)
qed

text \<open>
  Witness of claim C6, on the instance: a zero tag after the nonce, a KEM that rejects every
  ciphertext, and a wrapped key with a zero tag.
\<close>

theorem soft_failures_witness:
  "((length (replicate 12 (4::byte)) = NonceSize (mockAEAD (replicate 32 3)) \<and>
     Open (mockAEAD (replicate 32 3)) (replicate 12 4) (replicate 16 0) \<noteq> Some [1, 2, 3]) \<and>
    decryptAEAD (mockAEAD (replicate 32 3)) (replicate 12 4 @ replicate 16 0) [1, 2, 3]
        (initialResult ''aes256gcm'')
      = Inr ((initialResult ''aes256gcm'')\<lparr>DecryptionSuccessful := False\<rparr>)) \<and>
   ((length (replicate 32 (4::byte)) = CiphertextSize rejectingScheme \<and>
     Decapsulate rejectingScheme (replicate 2 1) (replicate 32 4)
       = Inl ''decapsulation failed'') \<and>
    decryptKyber mockLibrary rejectingScheme (replicate 2 1) (replicate 32 4 @ replicate 31 4)
        [1, 2, 3] (initialResult ''kyber768'')
      = Inr ((initialResult ''kyber768'')\<lparr>DecryptionSuccessful := False\<rparr>) \<and>
    decryptHybrid mockLibrary rejectingScheme (replicate 2 1) (replicate 32 4 @ replicate 31 4)
        [1, 2, 3] (initialResult ''hybrid-kyber768-aes256gcm'')
      = Inr ((initialResult ''hybrid-kyber768-aes256gcm'')\<lparr>DecryptionSuccessful := False\<rparr>)) \<and>
   ((length (replicate 32 (4::byte)) = CiphertextSize (mockScheme 0) \<and>
     Decapsulate (mockScheme 0) (replicate 2 1) (replicate 32 4) = Inr (replicate 32 3) \<and>
     newAESGCM mockLibrary (replicate 32 3) = Inr (mockAEAD (replicate 32 3)) \<and>
     length (replicate 12 (4::byte)) = NonceSize (mockAEAD (replicate 32 3)) \<and>
     Open (mockAEAD (replicate 32 3)) (replicate 12 4) (replicate 16 0) \<noteq> Some [1, 2, 3]) \<and>
    decryptKyber mockLibrary (mockScheme 0) (replicate 2 1)
        (replicate 32 4 @ replicate 12 4 @ replicate 16 0) [1, 2, 3]
        (initialResult ''kyber768'')
      = Inr ((initialResult ''kyber768'')\<lparr>DecryptionSuccessful := False\<rparr>)) \<and>
   ((length (replicate 32 (4::byte)) = CiphertextSize (mockScheme 0) \<and>
     Decapsulate (mockScheme 0) (replicate 2 1) (replicate 32 4) = Inr (replicate 32 3) \<and>
     newAESGCM mockLibrary (replicate 32 3) = Inr (mockAEAD (replicate 32 3)) \<and>
     length (replicate 12 (4::byte)) = NonceSize (mockAEAD (replicate 32 3)) \<and>
     length (replicate 48 (0::byte)) = 32 + 16 \<and>
     Open (mockAEAD (replicate 32 3)) (replicate 12 4) (replicate 48 0) = None) \<and>
    decryptHybrid mockLibrary (mockScheme 0) (replicate 2 1)
        (replicate 32 4 @ replicate 12 4 @ replicate 48 0 @ replicate 31 4) [1, 2, 3]
        (initialResult ''hybrid-kyber768-aes256gcm'')
      = Inr ((initialResult ''hybrid-kyber768-aes256gcm'')\<lparr>DecryptionSuccessful := False\<rparr>)) \<and>
   ((length (replicate 32 (4::byte)) = CiphertextSize (mockScheme 0) \<and>
     Decapsulate (mockScheme 0) (replicate 2 1) (replicate 32 4) = Inr (replicate 32 3) \<and>
     newAESGCM mockLibrary (replicate 32 3) = Inr (mockAEAD (replicate 32 3)) \<and>
     length (replicate 12 (4::byte)) = NonceSize (mockAEAD (replicate 32 3)) \<and>
     length (replicate 32 (5::byte) @ replicate 16 3) = 32 + 16 \<and>
     Open (mockAEAD (replicate 32 3)) (replicate 12 4) (replicate 32 5 @ replicate 16 3)
       = Some (replicate 32 2) \<and>
     32 \<le> length (replicate 32 (3::byte)) + length (replicate 32 (2::byte)) \<and>
     newAESGCM mockLibrary (take 32 (replicate 32 3 @ replicate 32 2))
       = Inr (mockAEAD (replicate 32 3)) \<and>
     length (replicate 12 (4::byte)) = NonceSize (mockAEAD (replicate 32 3)) \<and>
     Open (mockAEAD (replicate 32 3)) (replicate 12 4) (replicate 16 0) \<noteq> Some [1, 2, 3]) \<and>
    decryptHybrid mockLibrary (mockScheme 0) (replicate 2 1)
        (replicate 32 4 @ replicate 12 4 @ (replicate 32 5 @ replicate 16 3) @
         replicate 12 4 @ replicate 16 0) [1, 2, 3]
        (initialResult ''hybrid-kyber768-aes256gcm'')
      = Inr ((initialResult ''hybrid-kyber768-aes256gcm'')\<lparr>DecryptionSuccessful := False\<rparr>))"
proof -
  note T = soft_failures[where data = "[1, 2, 3]" and S = "mockScheme 0" and lib = mockLibrary]
  note R = soft_failures[where data = "[1, 2, 3]" and S = rejectingScheme and lib = mockLibrary]
  note T1 = T[THEN conjunct1, rule_format]
  note R2 = R[THEN conjunct2, THEN conjunct1, rule_format]
  note T3 = T[THEN conjunct2, THEN conjunct2, THEN conjunct1, rule_format]
  note R4 = R[THEN conjunct2, THEN conjunct2, THEN conjunct2, THEN conjunct1, rule_format]
  note T5 = T[THEN conjunct2, THEN conjunct2, THEN conjunct2, THEN conjunct2, THEN conjunct1,
              rule_format]
  note T6 = T[THEN conjunct2, THEN conjunct2, THEN conjunct2, THEN conjunct2, THEN conjunct2,
              rule_format]
  note facts = mock_CiphertextSize mock_Decapsulate mock_aead32 mock_NonceSize mock_unwrap
    mock_unwrap_bad mock_open_bad rejecting_Decapsulate rejecting_CiphertextSize
  have h1: "length (replicate 12 (4::byte)) = NonceSize (mockAEAD (replicate 32 3)) \<and>
     Open (mockAEAD (replicate 32 3)) (replicate 12 4) (replicate 16 0) \<noteq> Some [1, 2, 3]"
    by (simp add: facts)
  have h2: "length (replicate 32 (4::byte)) = CiphertextSize rejectingScheme \<and>
     Decapsulate rejectingScheme (replicate 2 1) (replicate 32 4)
       = Inl ''decapsulation failed''"
    by (simp add: facts)
  have h3: "length (replicate 32 (4::byte)) = CiphertextSize (mockScheme 0) \<and>
     Decapsulate (mockScheme 0) (replicate 2 1) (replicate 32 4) = Inr (replicate 32 3) \<and>
     newAESGCM mockLibrary (replicate 32 3) = Inr (mockAEAD (replicate 32 3)) \<and>
     length (replicate 12 (4::byte)) = NonceSize (mockAEAD (replicate 32 3)) \<and>
     Open (mockAEAD (replicate 32 3)) (replicate 12 4) (replicate 16 0) \<noteq> Some [1, 2, 3]"
    by (simp add: facts)
  have h5: "length (replicate 32 (4::byte)) = CiphertextSize (mockScheme 0) \<and>
     Decapsulate (mockScheme 0) (replicate 2 1) (replicate 32 4) = Inr (replicate 32 3) \<and>
     newAESGCM mockLibrary (replicate 32 3) = Inr (mockAEAD (replicate 32 3)) \<and>
     length (replicate 12 (4::byte)) = NonceSize (mockAEAD (replicate 32 3)) \<and>
     length (replicate 48 (0::byte)) = 32 + 16 \<and>
     Open (mockAEAD (replicate 32 3)) (replicate 12 4) (replicate 48 0) = None"
    by (simp add: facts)
  have h6: "length (replicate 32 (4::byte)) = CiphertextSize (mockScheme 0) \<and>
     Decapsulate (mockScheme 0) (replicate 2 1) (replicate 32 4) = Inr (replicate 32 3) \<and>
     newAESGCM mockLibrary (replicate 32 3) = Inr (mockAEAD (replicate 32 3)) \<and>
     length (replicate 12 (4::byte)) = NonceSize (mockAEAD (replicate 32 3)) \<and>
     length (replicate 32 (5::byte) @ replicate 16 3) = 32 + 16 \<and>
     Open (mockAEAD (replicate 32 3)) (replicate 12 4) (replicate 32 5 @ replicate 16 3)
       = Some (replicate 32 2) \<and>
     32 \<le> length (replicate 32 (3::byte)) + length (replicate 32 (2::byte)) \<and>
     newAESGCM mockLibrary (take 32 (replicate 32 3 @ replicate 32 2))
       = Inr (mockAEAD (replicate 32 3)) \<and>
     length (replicate 12 (4::byte)) = NonceSize (mockAEAD (replicate 32 3)) \<and>
     Open (mockAEAD (replicate 32 3)) (replicate 12 4) (replicate 16 0) \<noteq> Some [1, 2, 3]"
    by (simp add: facts)
  from h1 T1[OF h1] h2 R2[OF h2] R4[OF h2] h3 T3[OF h3] h5 T5[OF h5] h6 T6[OF h6]
  show ?thesis by blast
qed

subsection \<open>Framing errors\<close>

text \<open>
  Claim C7. In every executor, a buffer that ends before the next fixed-size field
  does (the KEM ciphertext, a nonce, the wrapped key with its tag) ends the self-test
  with an error and no result.
\<close>

theorem framing_errors_fatal:
  "(\<forall>a enc. length enc < NonceSize a \<longrightarrow>
      decryptAEAD a enc data r = Inl CiphertextTooShort) \<and>
   (\<forall>sk enc. length enc < CiphertextSize S \<longrightarrow>
      decryptKyber lib S sk enc data r = Inl CiphertextTooShort) \<and>
   (\<forall>sk ct ss a rest. length ct = CiphertextSize S \<and> Decapsulate S sk ct = Inr ss \<and>
      newAESGCM lib ss = Inr a \<and> length rest < NonceSize a \<longrightarrow>
      decryptKyber lib S sk (ct @ rest) data r = Inl RemainingCiphertextTooShort) \<and>
   (\<forall>sk enc. length enc < CiphertextSize S \<longrightarrow>
      decryptHybrid lib S sk enc data r = Inl CiphertextTooShort) \<and>
   (\<forall>sk ct ss ka rest. length ct = CiphertextSize S \<and> Decapsulate S sk ct = Inr ss \<and>
      newAESGCM lib ss = Inr ka \<and> length rest < NonceSize ka \<longrightarrow>
      decryptHybrid lib S sk (ct @ rest) data r = Inl RemainingCiphertextTooShort) \<and>
   (\<forall>sk ct ss ka kn rest. length ct = CiphertextSize S \<and> Decapsulate S sk ct = Inr ss \<and>
      newAESGCM lib ss = Inr ka \<and> length kn = NonceSize ka \<and> length rest < 32 + 16 \<longrightarrow>
      decryptHybrid lib S sk (ct @ kn @ rest) data r = Inl RemainingTooShortForAESKey) \<and>
   (\<forall>sk ct ss ka kn wk k a rest. length ct = CiphertextSize S \<and>
      Decapsulate S sk ct = Inr ss \<and> newAESGCM lib ss = Inr ka \<and>
      length kn = NonceSize ka \<and> length wk = 32 + 16 \<and> Open ka kn wk = Some k \<and>
      32 \<le> length ss + length k \<and> newAESGCM lib (take 32 (ss @ k)) = Inr a \<and>
      length rest < NonceSize a \<longrightarrow>
      decryptHybrid lib S sk (ct @ kn @ wk @ rest) data r = Inl RemainingTooShortForDataNonce)"
proof (intro conjI allI impI; (elim conjE)?)
  fix a :: AEAD and enc :: bytes assume "length enc < NonceSize a"
  then show "decryptAEAD a enc data r = Inl CiphertextTooShort"
    by (rule decryptAEAD_short)
next
  fix sk and enc :: bytes assume "length enc < CiphertextSize S"
  then show "decryptKyber lib S sk enc data r = Inl CiphertextTooShort"
    by (rule decryptKyber_short)
next
  fix sk ct ss a and rest :: bytes
  assume "length ct = CiphertextSize S" "Decapsulate S sk ct = Inr ss"
    "newAESGCM lib ss = Inr a" "length rest < NonceSize a"
  then show "decryptKyber lib S sk (ct @ rest) data r = Inl RemainingCiphertextTooShort"
    by (rule decryptKyber_short_nonce)
next
  fix sk and enc :: bytes assume "length enc < CiphertextSize S"
  then show "decryptHybrid lib S sk enc data r = Inl CiphertextTooShort"
    by (rule decryptHybrid_short)
next
  fix sk ct ss ka and rest :: bytes
  assume "length ct = CiphertextSize S" "Decapsulate S sk ct = Inr ss"
    "newAESGCM lib ss = Inr ka" "length rest < NonceSize ka"
  then show "decryptHybrid lib S sk (ct @ rest) data r = Inl RemainingCiphertextTooShort"
    by (rule decryptHybrid_short_keyNonce)
next
  fix sk ct ss ka and kn rest :: bytes
  assume "length ct = CiphertextSize S" "Decapsulate S sk ct = Inr ss"
    "newAESGCM lib ss = Inr ka" "length kn = NonceSize ka" "length rest < 32 + 16"
  then show "decryptHybrid lib S sk (ct @ kn @ rest) data r = Inl RemainingTooShortForAESKey"
    by (rule decryptHybrid_short_wrappedKey)
next
  fix sk ct ss ka kn wk k a and rest :: bytes
  assume "length ct = CiphertextSize S" "Decapsulate S sk ct = Inr ss"
    "newAESGCM lib ss = Inr ka" "length kn = NonceSize ka" "length wk = 32 + 16"
    "Open ka kn wk = Some k" "32 \<le> length ss + length k"
    "newAESGCM lib (take 32 (ss @ k)) = Inr a" "length rest < NonceSize a"
  then show "decryptHybrid lib S sk (ct @ kn @ wk @ rest) data r
               = Inl RemainingTooShortForDataNonce"
    by (rule decryptHybrid_short_dataNonce)
qed

text \<open>
  Witness of claim C7, on the instance, one truncated buffer for each of the seven length checks.
\<close>

theorem framing_errors_fatal_witness:
  "(length (replicate 11 (4::byte)) < NonceSize (mockAEAD (replicate 32 3)) \<and>
    decryptAEAD (mockAEAD (replicate 32 3)) (replicate 11 4) [1, 2, 3]
        (initialResult ''aes256gcm'')
      = Inl CiphertextTooShort) \<and>
   (length (replicate 31 (4::byte)) < CiphertextSize (mockScheme 0) \<and>
    decryptKyber mockLibrary (mockScheme 0) (replicate 2 1) (replicate 31 4) [1, 2, 3]
        (initialResult ''kyber768'')
      = Inl CiphertextTooShort) \<and>
   ((length (replicate 32 (4::byte)) = CiphertextSize (mockScheme 0) \<and>
     Decapsulate (mockScheme 0) (replicate 2 1) (replicate 32 4) = Inr (replicate 32 3) \<and>
     newAESGCM mockLibrary (replicate 32 3) = Inr (mockAEAD (replicate 32 3)) \<and>
     length (replicate 11 (4::byte)) < NonceSize (mockAEAD (replicate 32 3))) \<and>
    decryptKyber mockLibrary (mockScheme 0) (replicate 2 1) (replicate 32 4 @ replicate 11 4)
        [1, 2, 3] (initialResult ''kyber768'')
      = Inl RemainingCiphertextTooShort) \<and>
   (length (replicate 31 (4::byte)) < CiphertextSize (mockScheme 0) \<and>
    decryptHybrid mockLibrary (mockScheme 0) (replicate 2 1) (replicate 31 4) [1, 2, 3]
        (initialResult ''hybrid-kyber768-aes256gcm'')
      = Inl CiphertextTooShort) \<and>
   decryptHybrid mockLibrary (mockScheme 0) (replicate 2 1) (replicate 32 4 @ replicate 11 4)
       [1, 2, 3] (initialResult ''hybrid-kyber768-aes256gcm'')
     = Inl RemainingCiphertextTooShort \<and>
   ((length (replicate 32 (4::byte)) = CiphertextSize (mockScheme 0) \<and>
     Decapsulate (mockScheme 0) (replicate 2 1) (replicate 32 4) = Inr (replicate 32 3) \<and>
     newAESGCM mockLibrary (replicate 32 3) = Inr (mockAEAD (replicate 32 3)) \<and>
     length (replicate 12 (4::byte)) = NonceSize (mockAEAD (replicate 32 3)) \<and>
     length (replicate 47 (5::byte)) < 32 + 16) \<and>
    decryptHybrid mockLibrary (mockScheme 0) (replicate 2 1)
        (replicate 32 4 @ replicate 12 4 @ replicate 47 5) [1, 2, 3]
        (initialResult ''hybrid-kyber768-aes256gcm'')
      = Inl RemainingTooShortForAESKey) \<and>
   ((length (replicate 32 (4::byte)) = CiphertextSize (mockScheme 0) \<and>
     Decapsulate (mockScheme 0) (replicate 2 1) (replicate 32 4) = Inr (replicate 32 3) \<and>
     newAESGCM mockLibrary (replicate 32 3) = Inr (mockAEAD (replicate 32 3)) \<and>
     length (replicate 12 (4::byte)) = NonceSize (mockAEAD (replicate 32 3)) \<and>
     length (replicate 32 (5::byte) @ replicate 16 3) = 32 + 16 \<and>
     Open (mockAEAD (replicate 32 3)) (replicate 12 4) (replicate 32 5 @ replicate 16 3)
       = Some (replicate 32 2) \<and>
     32 \<le> length (replicate 32 (3::byte)) + length (replicate 32 (2::byte)) \<and>
     newAESGCM mockLibrary (take 32 (replicate 32 3 @ replicate 32 2))
       = Inr (mockAEAD (replicate 32 3)) \<and>
     length (replicate 11 (4::byte)) < NonceSize (mockAEAD (replicate 32 3))) \<and>
    decryptHybrid mockLibrary (mockScheme 0) (replicate 2 1)
        (replicate 32 4 @ replicate 12 4 @ (replicate 32 5 @ replicate 16 3) @ replicate 11 4)
        [1, 2, 3] (initialResult ''hybrid-kyber768-aes256gcm'')
      = Inl RemainingTooShortForDataNonce)"
proof -
  note T = framing_errors_fatal[where data = "[1, 2, 3]" and S = "mockScheme 0"
             and lib = mockLibrary]
  note T1 = T[THEN conjunct1, rule_format]
  note T2 = T[THEN conjunct2, THEN conjunct1, rule_format]
  note T3 = T[THEN conjunct2, THEN conjunct2, THEN conjunct1, rule_format]
  note T4 = T[THEN conjunct2, THEN conjunct2, THEN conjunct2, THEN conjunct1, rule_format]
  note T5 = T[THEN conjunct2, THEN conjunct2, THEN conjunct2, THEN conjunct2, THEN conjunct1,
              rule_format]
  note T6 = T[THEN conjunct2, THEN conjunct2, THEN conjunct2, THEN conjunct2, THEN conjunct2,
              THEN conjunct1, rule_format]
  note T7 = T[THEN conjunct2, THEN conjunct2, THEN conjunct2, THEN conjunct2, THEN conjunct2,
              THEN conjunct2, rule_format]
  note facts = mock_CiphertextSize mock_Decapsulate mock_aead32 mock_NonceSize mock_unwrap
  have h1: "length (replicate 11 (4::byte)) < NonceSize (mockAEAD (replicate 32 3))"
    by (simp add: facts)
  have h2: "length (replicate 31 (4::byte)) < CiphertextSize (mockScheme 0)"
    by (simp add: facts)
  have h3: "length (replicate 32 (4::byte)) = CiphertextSize (mockScheme 0) \<and>
     Decapsulate (mockScheme 0) (replicate 2 1) (replicate 32 4) = Inr (replicate 32 3) \<and>
     newAESGCM mockLibrary (replicate 32 3) = Inr (mockAEAD (replicate 32 3)) \<and>
     length (replicate 11 (4::byte)) < NonceSize (mockAEAD (replicate 32 3))"
    by (simp add: facts)
  have h6: "length (replicate 32 (4::byte)) = CiphertextSize (mockScheme 0) \<and>
     Decapsulate (mockScheme 0) (replicate 2 1) (replicate 32 4) = Inr (replicate 32 3) \<and>
     newAESGCM mockLibrary (replicate 32 3) = Inr (mockAEAD (replicate 32 3)) \<and>
     length (replicate 12 (4::byte)) = NonceSize (mockAEAD (replicate 32 3)) \<and>
     length (replicate 47 (5::byte)) < 32 + 16"
    by (simp add: facts)
  have h7: "length (replicate 32 (4::byte)) = CiphertextSize (mockScheme 0) \<and>
     Decapsulate (mockScheme 0) (replicate 2 1) (replicate 32 4) = Inr (replicate 32 3) \<and>
     newAESGCM mockLibrary (replicate 32 3) = Inr (mockAEAD (replicate 32 3)) \<and>
     length (replicate 12 (4::byte)) = NonceSize (mockAEAD (replicate 32 3)) \<and>
     length (replicate 32 (5::byte) @ replicate 16 3) = 32 + 16 \<and>
     Open (mockAEAD (replicate 32 3)) (replicate 12 4) (replicate 32 5 @ replicate 16 3)
       = Some (replicate 32 2) \<and>
     32 \<le> length (replicate 32 (3::byte)) + length (replicate 32 (2::byte)) \<and>
     newAESGCM mockLibrary (take 32 (replicate 32 3 @ replicate 32 2))
       = Inr (mockAEAD (replicate 32 3)) \<and>
     length (replicate 11 (4::byte)) < NonceSize (mockAEAD (replicate 32 3))"
    by (simp add: facts)
  from h1 T1[OF h1] h2 T2[OF h2] h3 T3[OF h3] T4[OF h2] T5[OF h3] h6 T6[OF h6] h7 T7[OF h7]
  show ?thesis by blast
qed

subsection \<open>The payload key\<close>

text \<open>
  Claim C8. The key under which the hybrid executor encrypts the payload is the first
  32 bytes of the shared secret followed by the symmetric key: on the encryption side
  the data ciphertext is the plaintext sealed by AES-GCM under that key, and on the
  decryption side, once the symmetric key is unwrapped, the data ciphertext is opened
  by AES-GCM under the same 32 bytes of the decapsulated secret followed by the
  unwrapped key.
\<close>

theorem payload_key_derivation:
  "(\<forall>key. hybridKey32 ss k = Inr key \<longleftrightarrow> 32 \<le> length ss + length k \<and> key = take 32 (ss @ k)) \<and>
   (\<forall>h. encryptHybrid lib S data rng = Inr h \<longrightarrow>
      (\<exists>a. newAESGCM lib (take 32 (hs_sharedSecret h @ hs_aesKey h)) = Inr a \<and>
           hs_encryptedData h = Seal a (hs_nonce h) data)) \<and>
   (\<forall>sk ct kn wk dn dc ka a r.
      length ct = CiphertextSize S \<and> Decapsulate S sk ct = Inr ss \<and>
      newAESGCM lib ss = Inr ka \<and> length kn = NonceSize ka \<and> length wk = 32 + 16 \<and>
      Open ka kn wk = Some k \<and> 32 \<le> length ss + length k \<and>
      newAESGCM lib (take 32 (ss @ k)) = Inr a \<and> length dn = NonceSize a \<longrightarrow>
      decryptHybrid lib S sk (ct @ kn @ wk @ dn @ dc) data r
        = Inr (r\<lparr>DecryptionSuccessful := (Open a dn dc = Some data)\<rparr>))"
proof (intro conjI allI impI)
  fix key
  show "hybridKey32 ss k = Inr key \<longleftrightarrow> 32 \<le> length ss + length k \<and> key = take 32 (ss @ k)"
    by (rule hybridKey32_Inr)
next
  fix h assume h: "encryptHybrid lib S data rng = Inr h"
  from encryptHybrid_Inr[OF h] obtain key a where
    hk: "hybridKey32 (hs_sharedSecret h) (hs_aesKey h) = Inr key" and
    a: "newAESGCM lib key = Inr a" and
    ed: "hs_encryptedData h = Seal a (hs_nonce h) data"
    by blast
  from hk have "key = take 32 (hs_sharedSecret h @ hs_aesKey h)" by (simp add: hybridKey32_Inr)
  with a ed show "\<exists>a. newAESGCM lib (take 32 (hs_sharedSecret h @ hs_aesKey h)) = Inr a \<and>
           hs_encryptedData h = Seal a (hs_nonce h) data" by blast
next
  fix sk and ct kn wk dn dc :: bytes and ka a r
  assume "length ct = CiphertextSize S \<and> Decapsulate S sk ct = Inr ss \<and>
      newAESGCM lib ss = Inr ka \<and> length kn = NonceSize ka \<and> length wk = 32 + 16 \<and>
      Open ka kn wk = Some k \<and> 32 \<le> length ss + length k \<and>
      newAESGCM lib (take 32 (ss @ k)) = Inr a \<and> length dn = NonceSize a"
  then show "decryptHybrid lib S sk (ct @ kn @ wk @ dn @ dc) data r
        = Inr (r\<lparr>DecryptionSuccessful := (Open a dn dc = Some data)\<rparr>)"
    using decryptHybrid_payload[of ct S sk ss lib ka kn wk k a dn dc data r] by blast
qed

text \<open>
  Witness of claim C8, on the instance, for the run on \<open>sampleRng 2\<close>.
\<close>

theorem payload_key_derivation_witness:
  "(hybridKey32 (replicate 32 3) (replicate 32 2) = Inr (replicate 32 3) \<longleftrightarrow>
      32 \<le> length (replicate 32 (3::byte)) + length (replicate 32 (2::byte)) \<and>
      replicate 32 3 = take 32 (replicate 32 (3::byte) @ replicate 32 2)) \<and>
   encryptHybrid mockLibrary (mockScheme 0) [1, 2, 3] (sampleRng 2) = Inr (sampleSealed 2) \<and>
   (\<exists>a. newAESGCM mockLibrary
           (take 32 (hs_sharedSecret (sampleSealed 2) @ hs_aesKey (sampleSealed 2))) = Inr a \<and>
        hs_encryptedData (sampleSealed 2) = Seal a (hs_nonce (sampleSealed 2)) [1, 2, 3]) \<and>
   (length (replicate 32 (4::byte)) = CiphertextSize (mockScheme 0) \<and>
    Decapsulate (mockScheme 0) (replicate 2 1) (replicate 32 4) = Inr (replicate 32 3) \<and>
    newAESGCM mockLibrary (replicate 32 3) = Inr (mockAEAD (replicate 32 3)) \<and>
    length (replicate 12 (4::byte)) = NonceSize (mockAEAD (replicate 32 3)) \<and>
    length (replicate 32 (5::byte) @ replicate 16 3) = 32 + 16 \<and>
    Open (mockAEAD (replicate 32 3)) (replicate 12 4) (replicate 32 5 @ replicate 16 3)
      = Some (replicate 32 2) \<and>
    32 \<le> length (replicate 32 (3::byte)) + length (replicate 32 (2::byte)) \<and>
    newAESGCM mockLibrary (take 32 (replicate 32 3 @ replicate 32 2))
      = Inr (mockAEAD (replicate 32 3)) \<and>
    length (replicate 12 (4::byte)) = NonceSize (mockAEAD (replicate 32 3))) \<and>
   decryptHybrid mockLibrary (mockScheme 0) (replicate 2 1)
       (replicate 32 4 @ replicate 12 4 @ (replicate 32 5 @ replicate 16 3) @
        replicate 12 4 @ [4, 5, 6] @ replicate 16 3) [1, 2, 3]
       (initialResult ''hybrid-kyber768-aes256gcm'')
     = Inr ((initialResult ''hybrid-kyber768-aes256gcm'')
          \<lparr>DecryptionSuccessful :=
             (Open (mockAEAD (replicate 32 3)) (replicate 12 4) ([4, 5, 6] @ replicate 16 3)
                = Some [1, 2, 3])\<rparr>)"
proof -
  note T = payload_key_derivation[where ss = "replicate 32 3" and k = "replicate 32 2"
             and lib = mockLibrary and S = "mockScheme 0" and data = "[1, 2, 3]"
             and rng = "sampleRng 2"]
  note T1 = T[THEN conjunct1, rule_format]
  note T2 = T[THEN conjunct2, THEN conjunct1, rule_format, OF encryptHybrid_sample]
  note T3 = T[THEN conjunct2, THEN conjunct2, rule_format]
  note facts = mock_CiphertextSize mock_Decapsulate mock_aead32 mock_NonceSize mock_unwrap
  have h: "length (replicate 32 (4::byte)) = CiphertextSize (mockScheme 0) \<and>
    Decapsulate (mockScheme 0) (replicate 2 1) (replicate 32 4) = Inr (replicate 32 3) \<and>
    newAESGCM mockLibrary (replicate 32 3) = Inr (mockAEAD (replicate 32 3)) \<and>
    length (replicate 12 (4::byte)) = NonceSize (mockAEAD (replicate 32 3)) \<and>
    length (replicate 32 (5::byte) @ replicate 16 3) = 32 + 16 \<and>
    Open (mockAEAD (replicate 32 3)) (replicate 12 4) (replicate 32 5 @ replicate 16 3)
      = Some (replicate 32 2) \<and>
    32 \<le> length (replicate 32 (3::byte)) + length (replicate 32 (2::byte)) \<and>
    newAESGCM mockLibrary (take 32 (replicate 32 3 @ replicate 32 2))
      = Inr (mockAEAD (replicate 32 3)) \<and>
    length (replicate 12 (4::byte)) = NonceSize (mockAEAD (replicate 32 3))"
    by (simp add: facts)
  from T1[of "replicate 32 3"] encryptHybrid_sample[of 2] T2 h T3[OF h]
  show ?thesis by blast
qed

subsection \<open>Default-algorithm preference\<close>

text \<open>
  Claim C9. \<^verbatim>\<open>SetDefaultAlgorithm\<close> looks the name up in the classic or the
  post-quantum list, as the flag says, before it touches the settings store: an unlisted
  name gives the invalid-algorithm error and the store as it was; a listed name is set
  under the key of its category and the configuration is written.
\<close>

theorem SetDefaultAlgorithm_validates:
  "(algorithm \<notin> Name ` set (if postQuantum then ListPostQuantumAlgorithms
                               else ListClassicAlgorithms) \<longrightarrow>
      SetDefaultAlgorithm viper algorithm postQuantum store
        = (Some (InvalidAlgorithm algorithm), store)) \<and>
   (algorithm \<in> Name ` set (if postQuantum then ListPostQuantumAlgorithms
                               else ListClassicAlgorithms) \<longrightarrow>
      SetDefaultAlgorithm viper algorithm postQuantum store
        = (case viper_WriteConfig viper
                  (viper_Set viper (if postQuantum then ''crypto.default_post_quantum''
                                    else ''crypto.default_classic'') algorithm store) of
             (None, store2) \<Rightarrow> (None, store2)
           | (Some err, store2) \<Rightarrow> (Some (LibraryError err), store2)))"
  by (cases postQuantum) (simp_all add: SetDefaultAlgorithm_def Let_def nameListed_iff)

text \<open>
  Witness of claim C9, on the association-list store: kyber768 is post-quantum, not classic.
\<close>

theorem SetDefaultAlgorithm_validates_witness:
  "''kyber768'' \<notin> Name ` set (if False then ListPostQuantumAlgorithms else ListClassicAlgorithms) \<and>
   SetDefaultAlgorithm mockViper ''kyber768'' False [(''crypto.default_classic'', ''aes256gcm'')]
     = (Some (InvalidAlgorithm ''kyber768''), [(''crypto.default_classic'', ''aes256gcm'')]) \<and>
   ''kyber768'' \<in> Name ` set (if True then ListPostQuantumAlgorithms else ListClassicAlgorithms) \<and>
   SetDefaultAlgorithm mockViper ''kyber768'' True []
     = (None, [(''crypto.default_post_quantum'', ''kyber768'')])"
proof -
  have 1: "''kyber768'' \<notin> Name ` set (if False then ListPostQuantumAlgorithms
                                         else ListClassicAlgorithms)"
    by (simp add: ListClassicAlgorithms_def)
  have 2: "''kyber768'' \<in> Name ` set (if True then ListPostQuantumAlgorithms
                                         else ListClassicAlgorithms)"
    by (simp add: ListPostQuantumAlgorithms_def)
  from SetDefaultAlgorithm_validates[of "''kyber768''" False mockViper
         "[(''crypto.default_classic'', ''aes256gcm'')]"]
       SetDefaultAlgorithm_validates[of "''kyber768''" True mockViper "[]"] 1 2
  show ?thesis by (simp add: mockViper_def)
qed

subsection \<open>The symmetric key has no influence on the payload key\<close>

text \<open>
  Claim C10. With a KEM whose shared secrets have 32 bytes, the payload key of the
  hybrid executor is the shared secret, whatever the symmetric key: two encryptions of
  one plaintext that agree on the shared secret and on the data nonce produce the same
  data ciphertext.
\<close>

theorem symmetric_key_no_influence:
  assumes s32: "kem_secret32 S"
    and h1: "encryptHybrid lib S data rng1 = Inr h1"
    and h2: "encryptHybrid lib S data rng2 = Inr h2"
    and ss: "hs_sharedSecret h1 = hs_sharedSecret h2"
    and nn: "hs_nonce h1 = hs_nonce h2"
  shows "hybridKey32 (hs_sharedSecret h1) (hs_aesKey h1) = Inr (hs_sharedSecret h1) \<and>
         hybridKey32 (hs_sharedSecret h2) (hs_aesKey h2) = Inr (hs_sharedSecret h1) \<and>
         hs_encryptedData h1 = hs_encryptedData h2"
proof -
  from encryptHybrid_Inr[OF h1] obtain pk1 r1 r1' key1 a1 where
    e1: "Encapsulate S pk1 r1 = Inr ((hs_ciphertext h1, hs_sharedSecret h1), r1')" and
    hk1: "hybridKey32 (hs_sharedSecret h1) (hs_aesKey h1) = Inr key1" and
    a1: "newAESGCM lib key1 = Inr a1" and
    ed1: "hs_encryptedData h1 = Seal a1 (hs_nonce h1) data"
    by blast
  from encryptHybrid_Inr[OF h2] obtain key2 a2 where
    hk2: "hybridKey32 (hs_sharedSecret h2) (hs_aesKey h2) = Inr key2" and
    a2: "newAESGCM lib key2 = Inr a2" and
    ed2: "hs_encryptedData h2 = Seal a2 (hs_nonce h2) data"
    by blast
  from s32 e1 have l: "length (hs_sharedSecret h1) = 32" unfolding kem_secret32_def by blast
  have k1: "key1 = hs_sharedSecret h1" using hk1 hybridKey32_secret32[OF l] by simp
  have k2: "key2 = hs_sharedSecret h1" using hk2 hybridKey32_secret32[OF l] ss by simp
  from a1 a2 k1 k2 have "a1 = a2" by simp
  with ed1 ed2 nn hk1 hk2 k1 k2 show ?thesis by simp
qed

text \<open>
  Witness of claim C10, on the instance: two runs whose random sources differ in the symmetric
  key only.
\<close>

theorem symmetric_key_no_influence_witness:
  "kem_secret32 (mockScheme 0) \<and>
   encryptHybrid mockLibrary (mockScheme 0) [1, 2, 3] (sampleRng 2) = Inr (sampleSealed 2) \<and>
   encryptHybrid mockLibrary (mockScheme 0) [1, 2, 3] (sampleRng 9) = Inr (sampleSealed 9) \<and>
   hs_sharedSecret (sampleSealed 2) = hs_sharedSecret (sampleSealed 9) \<and>
   hs_nonce (sampleSealed 2) = hs_nonce (sampleSealed 9) \<and>
   hs_aesKey (sampleSealed 2) \<noteq> hs_aesKey (sampleSealed 9) \<and>
   hybridKey32 (hs_sharedSecret (sampleSealed 2)) (hs_aesKey (sampleSealed 2))
     = Inr (hs_sharedSecret (sampleSealed 2)) \<and>
   hybridKey32 (hs_sharedSecret (sampleSealed 9)) (hs_aesKey (sampleSealed 9))
     = Inr (hs_sharedSecret (sampleSealed 2)) \<and>
   hs_encryptedData (sampleSealed 2) = hs_encryptedData (sampleSealed 9)"
proof -
  have ss: "hs_sharedSecret (sampleSealed 2) = hs_sharedSecret (sampleSealed 9)"
    by (simp add: sampleSealed_def)
  have nn: "hs_nonce (sampleSealed 2) = hs_nonce (sampleSealed 9)"
    by (simp add: sampleSealed_def)
  have kk: "hs_aesKey (sampleSealed 2) \<noteq> hs_aesKey (sampleSealed 9)"
    by (simp add: sampleSealed_def)
  from symmetric_key_no_influence[OF mockScheme_secret32 encryptHybrid_sample
         encryptHybrid_sample ss nn]
    mockScheme_secret32[of 0] encryptHybrid_sample[of 2] encryptHybrid_sample[of 9] ss nn kk
  show ?thesis by blast
qed

end
